theory Spec2Isabelle
  imports Main "HOL-Library.Word" "HOL-Library.Signed_Division"
begin

unbundle bit_operations_syntax

section \<open>Machine integers and errors\<close>

text \<open>
  Go's \<^verbatim>\<open>uint64\<close> and \<^verbatim>\<open>int64\<close> are both 64-bit words: addition, subtraction and
  multiplication wrap, and the conversion between the two keeps the bits. The signed
  reading of a word is \<^term>\<open>sint\<close>, the unsigned one \<^term>\<open>unat\<close>. A
  \<^verbatim>\<open>group.MemberIndex\<close> is a \<^verbatim>\<open>uint8\<close>. Slice lengths are natural numbers; a Go
  slice never has \<open>2 ^ 63\<close> elements or more.
\<close>

type_synonym uint64 = "64 word"
type_synonym int64 = "64 word"
type_synonym uint32 = "32 word"
type_synonym uint8 = "8 word"
type_synonym MemberIndex = uint8
type_synonym bytes = "8 word list"

text \<open>
  An \<^verbatim>\<open>error\<close> value built by \<^verbatim>\<open>fmt.Errorf\<close> is its message; the formatted
  arguments are left out of the message, a wrapped cause is kept. A run-time panic
  is an outcome of its own.
\<close>

datatype error = Err string | Wrapped string error | Panic string

text \<open>
  Go's \<^verbatim>\<open>/\<close> and \<^verbatim>\<open>%\<close> on \<^verbatim>\<open>int64\<close> truncate towards zero; the quotient of the
  least value by \<open>-1\<close> wraps. A zero divisor panics and is checked by the caller.
\<close>

definition go_quo64 :: "int64 \<Rightarrow> int64 \<Rightarrow> int64" where
  "go_quo64 a b = word_of_int (sint a sdiv sint b)"

definition go_rem64 :: "int64 \<Rightarrow> int64 \<Rightarrow> int64" where
  "go_rem64 a b = word_of_int (sint a smod sint b)"

section \<open>Redemption transactions\<close>

subsection \<open>Data\<close>

record RedemptionRequest =
  Redeemer :: string
  RedeemerOutputScript :: bytes
  RequestedAmount :: uint64
  TreasuryFee :: uint64
  TxMaxFee :: uint64
  RequestedAt :: int

subsection \<open>Fee distribution\<close>

text \<open>
  \<^verbatim>\<open>withRedemptionTotalFee(totalFee)\<close> applied to the requests. The remainder
  operation panics on an empty request list. The loop writes one share per index
  into a zeroed slice of \<^verbatim>\<open>requestsCount\<close> elements.
\<close>

definition withRedemptionTotalFee :: "int64 \<Rightarrow> RedemptionRequest list \<Rightarrow> error + int64 list" where
  "withRedemptionTotalFee totalFee requests =
     (let requestsCount = (word_of_nat (length requests) :: int64) in
      if requestsCount = 0 then Inl (Panic ''integer divide by zero'')
      else
        let remainder = go_rem64 totalFee requestsCount;
            feePerRequest = go_quo64 (totalFee - remainder) requestsCount;
            feeShares = replicate (length requests) (0 :: int64)
        in Inr (foldl
                  (\<lambda>shares i.
                     shares[i := (if i = length requests - 1
                                  then feePerRequest + remainder
                                  else feePerRequest)])
                  feeShares [0..<length requests]))"

subsection \<open>Bitcoin data\<close>

text \<open>
  The types of the \<^verbatim>\<open>bitcoin\<close> package, with the fields the code reads. An unspent
  output carries its outpoint and its value; a transaction output carries a value and a
  script. The
  \<^verbatim>\<open>Value\<close> field of an unspent output is named \<open>UtxoValue\<close> here, the one of a
  transaction output keeps its name.
\<close>

record TransactionOutpoint =
  TransactionHash :: bytes
  OutputIndex :: uint32

record UnspentTransactionOutput =
  Outpoint :: TransactionOutpoint
  UtxoValue :: int64

record TransactionOutput =
  Value :: int64
  PublicKeyScript :: bytes

text \<open>
  Modelled from the spec: \<^verbatim>\<open>bitcoin.TransactionBuilder\<close> is not part of the sources. The
  spec describes an unsigned transaction as its inputs and its outputs, in order; the
  builder holds the unspent outputs added as inputs and the outputs added so far.
  \<^verbatim>\<open>AddPublicKeyHashInput\<close> consults the Bitcoin chain and may fail there: the chain's
  answer is the parameter \<open>bitcoinChain\<close> (\<open>None\<close> when the input is accepted).
  \<^verbatim>\<open>TotalInputsValue\<close> is the sum of the values of the inputs added.
\<close>

record TransactionBuilder =
  inputs :: "UnspentTransactionOutput list"
  outputs :: "TransactionOutput list"

definition NewTransactionBuilder :: TransactionBuilder where
  "NewTransactionBuilder = \<lparr>inputs = [], outputs = []\<rparr>"

definition AddPublicKeyHashInput ::
  "(UnspentTransactionOutput \<Rightarrow> error option) \<Rightarrow> TransactionBuilder
     \<Rightarrow> UnspentTransactionOutput \<Rightarrow> error + TransactionBuilder" where
  "AddPublicKeyHashInput bitcoinChain builder utxo =
     (case bitcoinChain utxo of
        Some e \<Rightarrow> Inl e
      | None \<Rightarrow> Inr (builder\<lparr>inputs := inputs builder @ [utxo]\<rparr>))"

definition TotalInputsValue :: "TransactionBuilder \<Rightarrow> int64" where
  "TotalInputsValue builder = sum_list (map UtxoValue (inputs builder))"

definition AddOutput :: "TransactionBuilder \<Rightarrow> TransactionOutput \<Rightarrow> TransactionBuilder" where
  "AddOutput builder output = builder\<lparr>outputs := outputs builder @ [output]\<rparr>"

subsection \<open>Transaction shape\<close>

text \<open>\<^verbatim>\<open>RedemptionTransactionShape\<close> is a \<^verbatim>\<open>uint8\<close> with two named values.\<close>

type_synonym RedemptionTransactionShape = uint8

definition RedemptionChangeFirst :: RedemptionTransactionShape where
  "RedemptionChangeFirst = 0"

definition RedemptionChangeLast :: RedemptionTransactionShape where
  "RedemptionChangeLast = 1"

subsection \<open>Transaction assembly\<close>

text \<open>
  The loop of \<^verbatim>\<open>assembleRedemptionTransaction\<close> over the requests. The state is the
  total fee, the total value of the redemption outputs and the outputs built so far;
  \<open>i\<close> is the loop index. Reading \<^verbatim>\<open>feeShares[i]\<close> beyond the end of the slice panics.
  The subtraction of the treasury fee is done on \<^verbatim>\<open>uint64\<close> and converted to
  \<^verbatim>\<open>int64\<close>, which keeps the bits.
\<close>

fun redemptionOutputsLoop ::
  "RedemptionRequest list \<Rightarrow> int64 list \<Rightarrow> nat
     \<Rightarrow> int64 \<times> int64 \<times> TransactionOutput list
     \<Rightarrow> error + (int64 \<times> int64 \<times> TransactionOutput list)" where
  "redemptionOutputsLoop [] feeShares i state = Inr state"
| "redemptionOutputsLoop (request # rest) feeShares i (totalFee, totalRedemptionOutputsValue, outs) =
     (if i < length feeShares then
        let redeemableAmount = RequestedAmount request - TreasuryFee request;
            feeShare = feeShares ! i;
            redemptionOutputValue = redeemableAmount - feeShare;
            redemptionOutput =
              \<lparr>Value = redemptionOutputValue,
               PublicKeyScript = RedeemerOutputScript request\<rparr>
        in redemptionOutputsLoop rest feeShares (Suc i)
             (totalFee + feeShare,
              totalRedemptionOutputsValue + redemptionOutputValue,
              outs @ [redemptionOutput])
      else Inl (Panic ''index out of range''))"

text \<open>
  \<^verbatim>\<open>assembleRedemptionTransaction\<close>. The wallet's main UTXO is a pointer that may be
  nil; the variadic \<open>shape\<close> is a list. \<open>p2wpkh\<close> stands for
  \<^verbatim>\<open>bitcoin.PayToWitnessPublicKeyHash(bitcoin.PublicKeyHash(walletPublicKey))\<close>, which may
  fail. The fee distribution is a function of the requests and may panic.
\<close>

definition assembleRedemptionTransaction ::
  "(UnspentTransactionOutput \<Rightarrow> error option) \<Rightarrow> ('pk \<Rightarrow> error + bytes) \<Rightarrow> 'pk
     \<Rightarrow> UnspentTransactionOutput option \<Rightarrow> RedemptionRequest list
     \<Rightarrow> (RedemptionRequest list \<Rightarrow> error + int64 list)
     \<Rightarrow> RedemptionTransactionShape list \<Rightarrow> error + TransactionBuilder" where
  "assembleRedemptionTransaction bitcoinChain p2wpkh walletPublicKey walletMainUtxo requests
       feeDistribution shape =
     (let resolvedShape = (if length shape = 1 then shape ! 0 else RedemptionChangeFirst) in
      case walletMainUtxo of
        None \<Rightarrow> Inl (Err ''wallet main UTXO is required'')
      | Some utxo \<Rightarrow>
          if length requests < 1
          then Inl (Err ''at least one redemption request is required'')
          else
            case AddPublicKeyHashInput bitcoinChain NewTransactionBuilder utxo of
              Inl e \<Rightarrow> Inl (Wrapped ''cannot add input pointing to wallet main UTXO'' e)
            | Inr builder \<Rightarrow>
                (case feeDistribution requests of
                   Inl p \<Rightarrow> Inl p
                 | Inr feeShares \<Rightarrow>
                     (case redemptionOutputsLoop requests feeShares 0 (0, 0, []) of
                        Inl p \<Rightarrow> Inl p
                      | Inr (totalFee, totalRedemptionOutputsValue, outs) \<Rightarrow>
                          let changeOutputValue =
                                TotalInputsValue builder - totalRedemptionOutputsValue - totalFee
                          in
                            (case
                               (if 0 <s changeOutputValue then
                                  (case p2wpkh walletPublicKey of
                                     Inl e \<Rightarrow> Inl (Wrapped ''cannot compute change output script'' e)
                                   | Inr changeOutputScript \<Rightarrow>
                                       let changeOutput =
                                             \<lparr>Value = changeOutputValue,
                                              PublicKeyScript = changeOutputScript\<rparr>
                                       in if resolvedShape = RedemptionChangeFirst
                                          then Inr (changeOutput # outs)
                                          else if resolvedShape = RedemptionChangeLast
                                          then Inr (outs @ [changeOutput])
                                          else Inl (Panic ''unknown redemption transaction shape''))
                                else Inr outs)
                             of
                               Inl e \<Rightarrow> Inl e
                             | Inr outs' \<Rightarrow> Inr (foldl AddOutput builder outs')))))"

text \<open>
  The outputs the spec describes, to compare the assembled transaction with: one
  redemption output per request, paying the redeemer's script the requested amount less
  the treasury fee and the request's fee share, and the value left for the change.
\<close>

definition redemptionOutputFor :: "RedemptionRequest \<Rightarrow> int64 \<Rightarrow> TransactionOutput" where
  "redemptionOutputFor request feeShare =
     \<lparr>Value = RequestedAmount request - TreasuryFee request - feeShare,
      PublicKeyScript = RedeemerOutputScript request\<rparr>"

definition redemptionOutputsFor ::
  "RedemptionRequest list \<Rightarrow> int64 list \<Rightarrow> TransactionOutput list" where
  "redemptionOutputsFor requests feeShares = map2 redemptionOutputFor requests feeShares"

definition changeValueFor ::
  "UnspentTransactionOutput \<Rightarrow> RedemptionRequest list \<Rightarrow> int64 list \<Rightarrow> int64" where
  "changeValueFor utxo requests feeShares =
     UtxoValue utxo
       - sum_list (map Value (redemptionOutputsFor requests feeShares))
       - sum_list (take (length requests) feeShares)"

text \<open>The shape resolved from the variadic argument: the first one when exactly one is given.\<close>

definition resolvedShapeOf :: "RedemptionTransactionShape list \<Rightarrow> RedemptionTransactionShape" where
  "resolvedShapeOf shape = (if length shape = 1 then shape ! 0 else RedemptionChangeFirst)"

section \<open>DKG result publication\<close>

subsection \<open>Chain and protocol data\<close>

datatype DKGState = Idle | AwaitingSeed | AwaitingResult | Challenge

text \<open>
  The group parameters and the chain configuration, with the fields the code reads.
\<close>

record GroupParameters =
  GroupQuorum :: int

record ChainConfig =
  GroupSize :: int
  HonestThreshold :: int
  ResultPublicationBlockStep :: uint64

text \<open>
  The \<^verbatim>\<open>dkg.Result\<close> of the local member, as its accessors present it: the group
  public key and its serialisation (both may fail), the member identifiers of the group,
  the operating ones and the misbehaved ones.
\<close>

record 'pk Result =
  GroupPublicKey :: "error + 'pk"
  ResultGroupPublicKeyBytes :: "error + bytes"
  MemberIDs :: "MemberIndex list"
  OperatingMemberIndexes :: "MemberIndex list"
  MisbehavedMembersIndexes :: "MemberIndex list"

text \<open>The DKG result submission event, with the fields the node reads.\<close>

record DKGResultSubmittedEvent =
  GroupPublicKeyBytes :: bytes
  Misbehaved :: "MemberIndex list"
  BlockNumber :: uint64

text \<open>
  A block counter: the current block, and whether a waiter for a block height can be
  set up. What a waiter delivers is given by the chain events below.
\<close>

record BlockCounter =
  CurrentBlock :: "error + uint64"
  BlockHeightWaiter :: "uint64 \<Rightarrow> error option"

text \<open>
  The chain as one call of the publication code sees it. \<open>'cr\<close> is what
  \<^verbatim>\<open>SubmitDKGResult\<close> is given: the assembled chain result in
  \<^verbatim>\<open>dkg_submit.go\<close>, and the member index, the result and the signatures in the node's
  own submitter.
\<close>

record ('pk, 'gsr, 'cr) Chain =
  GetConfig :: ChainConfig
  GetDKGState :: "error + DKGState"
  BlockCounter :: "error + BlockCounter"
  AssembleDKGResult ::
    "MemberIndex \<Rightarrow> 'pk \<Rightarrow> MemberIndex list \<Rightarrow> MemberIndex list
       \<Rightarrow> (MemberIndex \<rightharpoonup> bytes) \<Rightarrow> 'gsr \<Rightarrow> error + 'cr"
  IsDKGResultValid :: "'cr \<Rightarrow> error + bool"
  SubmitDKGResult :: "'cr \<Rightarrow> error option"

text \<open>
  A call either returns or waits for ever. A submitter returns its error (or nil) together
  with the submission attempts it made, each with the block at which it was made.
\<close>

datatype 'a outcome = Returned 'a | Blocked

type_synonym 'cr submission = "(uint64 \<times> 'cr) list \<times> error option outcome"

subsection \<open>Waiting for blocks and events\<close>

text \<open>
  Modelled from the spec: the block counter's wait-for-height and the event subscription
  are not part of the sources. What a waiting member observes, from the moment it
  starts to wait, is a sequence of chain observations: a new block height, a
  \<^verbatim>\<open>DKGResultSubmitted\<close> event delivered by the subscription, or the cancellation of
  the context. A waiter for height \<open>h\<close> delivers the first block height that is at
  least \<open>h\<close>. The order of the sequence is the order in which the waiting
  \<^verbatim>\<open>select\<close> receives.
\<close>

datatype chainEvent =
  NewBlock uint64
| ResultSubmitted DKGResultSubmittedEvent
| ContextDone

datatype selectOutcome =
  WaiterFired uint64
| EventReceived DKGResultSubmittedEvent
| NothingReceived

text \<open>
  The \<^verbatim>\<open>select\<close> over a block height waiter and the channel fed by the
  \<^verbatim>\<open>OnDKGResultSubmitted\<close> subscription: whichever delivers first.
\<close>

fun selectWaiterOrEvent :: "uint64 \<Rightarrow> chainEvent list \<Rightarrow> selectOutcome" where
  "selectWaiterOrEvent h [] = NothingReceived"
| "selectWaiterOrEvent h (NewBlock b # events) =
     (if h \<le> b then WaiterFired b else selectWaiterOrEvent h events)"
| "selectWaiterOrEvent h (ResultSubmitted event # events) = EventReceived event"
| "selectWaiterOrEvent h (ContextDone # events) = selectWaiterOrEvent h events"

text \<open>
  Modelled from the spec: \<^verbatim>\<open>waitForBlockFn\<close> is a parameter of the submitter of
  \<^verbatim>\<open>dkg_submit.go\<close>. It returns an error, or returns nil at some block, with the context
  cancelled or not, or does not return. \<open>waitForBlockHeight\<close> is the wait the spec
  describes: until the height is reached or the context is done, whichever comes first.
\<close>

datatype waitResult =
  WaitFailed error
| WaitReturned uint64 bool
| WaitForever

fun waitForBlockHeight :: "chainEvent list \<Rightarrow> uint64 \<Rightarrow> uint64 \<Rightarrow> waitResult" where
  "waitForBlockHeight [] current h = WaitForever"
| "waitForBlockHeight (NewBlock b # events) current h =
     (if h \<le> b then WaitReturned b False else waitForBlockHeight events b h)"
| "waitForBlockHeight (ResultSubmitted event # events) current h =
     waitForBlockHeight events current h"
| "waitForBlockHeight (ContextDone # events) current h = WaitReturned current True"

subsection \<open>The submitter of \<^verbatim>\<open>dkg_submit.go\<close>\<close>

text \<open>
  \<^verbatim>\<open>dkgResultSubmitter.SubmitResult\<close>. The submitter's fields are the first arguments;
  \<open>dkgResultSubmissionDelayStepBlocks\<close> is a constant declared outside the sources and is
  an argument as well. The signatures are a map, its length the number of its keys.
  Log calls have no effect on the result and are left out.
\<close>

definition SubmitResult ::
  "GroupParameters \<Rightarrow> ('pk, 'gsr, 'cr) Chain \<Rightarrow> 'gsr \<Rightarrow> (uint64 \<Rightarrow> waitResult) \<Rightarrow> uint64
     \<Rightarrow> MemberIndex \<Rightarrow> 'pk Result \<Rightarrow> (MemberIndex \<rightharpoonup> bytes) \<Rightarrow> 'cr submission" where
  "SubmitResult groupParameters chain groupSelectionResult waitForBlockFn
       dkgResultSubmissionDelayStepBlocks memberIndex result signatures =
     (if int (card (dom signatures)) < GroupQuorum groupParameters
      then ([], Returned (Some (Err ''could not submit result with signatures for group quorum'')))
      else
        case GetDKGState chain of
          Inl e \<Rightarrow> ([], Returned (Some (Wrapped ''could not check DKG state'' e)))
        | Inr dkgState \<Rightarrow>
            if dkgState \<noteq> AwaitingResult then ([], Returned None)
            else
              (case GroupPublicKey result of
                 Inl e \<Rightarrow> ([], Returned (Some (Wrapped ''cannot get group public key'' e)))
               | Inr groupPublicKey \<Rightarrow>
                   (case AssembleDKGResult chain memberIndex groupPublicKey
                           (OperatingMemberIndexes result) (MisbehavedMembersIndexes result)
                           signatures groupSelectionResult of
                      Inl e \<Rightarrow> ([], Returned (Some (Wrapped ''cannot assemble DKG chain result'' e)))
                    | Inr dkgResult \<Rightarrow>
                        (case IsDKGResultValid chain dkgResult of
                           Inl e \<Rightarrow> ([], Returned (Some (Wrapped ''cannot validate DKG result'' e)))
                         | Inr isValid \<Rightarrow>
                             if \<not> isValid then ([], Returned (Some (Err ''invalid DKG result'')))
                             else
                               (case BlockCounter chain of
                                  Inl e \<Rightarrow> ([], Returned (Some e))
                                | Inr blockCounter \<Rightarrow>
                                    (case CurrentBlock blockCounter of
                                       Inl e \<Rightarrow> ([], Returned (Some (Wrapped ''cannot get current block'' e)))
                                     | Inr currentBlock \<Rightarrow>
                                         let delayBlocks =
                                               ucast (memberIndex - 1) * dkgResultSubmissionDelayStepBlocks;
                                             submissionBlock = currentBlock + delayBlocks
                                         in
                                           (case waitForBlockFn submissionBlock of
                                              WaitFailed e \<Rightarrow>
                                                ([], Returned (Some (Wrapped
                                                   ''error while waiting for DKG result submission block'' e)))
                                            | WaitForever \<Rightarrow> ([], Blocked)
                                            | WaitReturned block ctxErr \<Rightarrow>
                                                if ctxErr then ([], Returned None)
                                                else ([(block, dkgResult)],
                                                      Returned (SubmitDKGResult chain dkgResult)))))))))"

subsection \<open>The node's own submitter\<close>

text \<open>
  \<^verbatim>\<open>setupEligibilityQueue\<close>: the waiter it returns is identified by the block height it
  waits for.
\<close>

definition setupEligibilityQueue ::
  "('pk, 'gsr, 'cr) Chain \<Rightarrow> uint64 \<Rightarrow> MemberIndex \<Rightarrow> error + uint64" where
  "setupEligibilityQueue chain startBlockNumber memberIndex =
     (let blockWaitTime = (ucast memberIndex - 1) * ResultPublicationBlockStep (GetConfig chain);
          eligibleBlockHeight = startBlockNumber + blockWaitTime
      in case BlockCounter chain of
           Inl e \<Rightarrow> Inl (Wrapped ''could not get block counter'' e)
         | Inr blockCounter \<Rightarrow>
             (case BlockHeightWaiter blockCounter eligibleBlockHeight of
                Some e \<Rightarrow> Inl (Wrapped ''block height waiter failure'' e)
              | None \<Rightarrow> Inr eligibleBlockHeight))"

text \<open>
  \<^verbatim>\<open>SubmitResult\<close> of the node's submitter, which takes the start block of the
  publication. Both branches of its \<^verbatim>\<open>select\<close> return, so the surrounding loop runs
  once. The subscription's callback forwards the block number of the event.
\<close>

definition SubmitResult_node ::
  "('pk, 'gsr, MemberIndex \<times> 'pk Result \<times> (MemberIndex \<rightharpoonup> bytes)) Chain \<Rightarrow> chainEvent list
     \<Rightarrow> MemberIndex \<Rightarrow> 'pk Result \<Rightarrow> (MemberIndex \<rightharpoonup> bytes) \<Rightarrow> uint64
     \<Rightarrow> (MemberIndex \<times> 'pk Result \<times> (MemberIndex \<rightharpoonup> bytes)) submission" where
  "SubmitResult_node chain events memberIndex result signatures startBlockNumber =
     (let config = GetConfig chain in
      if int (card (dom signatures)) < HonestThreshold config
      then ([], Returned (Some (Err
              ''could not submit result with signatures for signature honest threshold'')))
      else
        case GetDKGState chain of
          Inl e \<Rightarrow> ([], Returned (Some (Wrapped ''could not check DKG state'' e)))
        | Inr dkgState \<Rightarrow>
            if dkgState \<noteq> AwaitingResult then ([], Returned None)
            else
              (case setupEligibilityQueue chain startBlockNumber memberIndex of
                 Inl e \<Rightarrow> ([], Returned (Some (Wrapped ''cannot set up eligibility queue'' e)))
               | Inr submitterEligibleChan \<Rightarrow>
                   (case selectWaiterOrEvent submitterEligibleChan events of
                      NothingReceived \<Rightarrow> ([], Blocked)
                    | WaiterFired blockNumber \<Rightarrow>
                        (case ResultGroupPublicKeyBytes result of
                           Inl e \<Rightarrow> ([], Returned (Some (Wrapped ''cannot get public key bytes'' e)))
                         | Inr publicKeyBytes \<Rightarrow>
                             ([(blockNumber, (memberIndex, result, signatures))],
                              Returned (SubmitDKGResult chain (memberIndex, result, signatures))))
                    | EventReceived event \<Rightarrow> ([], Returned None))))"

subsection \<open>Member fate after a failed publication\<close>

text \<open>
  \<^verbatim>\<open>waitForDkgResultEvent\<close>. \<open>PrePublicationBlocks\<close> is a constant of the \<^verbatim>\<open>dkg\<close>
  package and an argument here.
\<close>

definition waitForDkgResultEvent ::
  "('pk, 'gsr, 'cr) Chain \<Rightarrow> uint64 \<Rightarrow> chainEvent list \<Rightarrow> uint64
     \<Rightarrow> (error + DKGResultSubmittedEvent) outcome" where
  "waitForDkgResultEvent chain PrePublicationBlocks dkgResultChannel publicationStartBlock =
     (let config = GetConfig chain;
          timeoutBlock = publicationStartBlock + PrePublicationBlocks
                           + (word_of_int (GroupSize config) * ResultPublicationBlockStep config)
      in case BlockCounter chain of
           Inl e \<Rightarrow> Returned (Inl e)
         | Inr blockCounter \<Rightarrow>
             (case BlockHeightWaiter blockCounter timeoutBlock of
                Some e \<Rightarrow> Returned (Inl e)
              | None \<Rightarrow>
                  (case selectWaiterOrEvent timeoutBlock dkgResultChannel of
                     EventReceived dkgResultEvent \<Rightarrow> Returned (Inr dkgResultEvent)
                   | WaiterFired b \<Rightarrow>
                       Returned (Inl (Err ''ECDSA DKG result publication timed out''))
                   | NothingReceived \<Rightarrow> Blocked)))"

text \<open>
  \<^verbatim>\<open>decideSigningGroupMemberFate\<close>. The misbehaved set is a map to the empty struct,
  filled by a loop; the operating members are collected by a second loop.
\<close>

definition decideSigningGroupMemberFate ::
  "('pk, 'gsr, 'cr) Chain \<Rightarrow> uint64 \<Rightarrow> MemberIndex \<Rightarrow> chainEvent list \<Rightarrow> uint64 \<Rightarrow> 'pk Result
     \<Rightarrow> (error + MemberIndex list) outcome" where
  "decideSigningGroupMemberFate chain PrePublicationBlocks memberIndex dkgResultChannel
       publicationStartBlock result =
     (case waitForDkgResultEvent chain PrePublicationBlocks dkgResultChannel publicationStartBlock of
        Blocked \<Rightarrow> Blocked
      | Returned (Inl e) \<Rightarrow> Returned (Inl e)
      | Returned (Inr dkgResultEvent) \<Rightarrow>
          (case ResultGroupPublicKeyBytes result of
             Inl e \<Rightarrow> Returned (Inl e)
           | Inr groupPublicKeyBytes \<Rightarrow>
               if groupPublicKeyBytes \<noteq> GroupPublicKeyBytes dkgResultEvent
               then Returned (Inl (Err
                      ''could not stay in the group because the member do not support the same group public key''))
               else
                 let misbehavedSet =
                       foldl (\<lambda>misbehaved misbehavedID. misbehaved(misbehavedID \<mapsto> ()))
                         (Map.empty :: MemberIndex \<rightharpoonup> unit) (Misbehaved dkgResultEvent)
                 in if misbehavedSet memberIndex \<noteq> None
                    then Returned (Inl (Err
                           ''could not stay in the group because the member is considered as misbehaving''))
                    else Returned (Inr
                           (foldl (\<lambda>operatingMemberIndexes memberID.
                                     if misbehavedSet memberID = None
                                     then operatingMemberIndexes @ [memberID]
                                     else operatingMemberIndexes)
                              [] (MemberIDs result)))))"

text \<open>
  \<^verbatim>\<open>resolveFinalSigningGroupOperators\<close>. The loop writes the operator of each sorted
  member index into a slice of as many empty addresses; \<^verbatim>\<open>operatingMemberID-1\<close> is
  computed on \<^verbatim>\<open>uint8\<close>, and reading \<^verbatim>\<open>selectedOperators\<close> out of range panics.
\<close>

fun fillSigningGroupOperators ::
  "string list \<Rightarrow> MemberIndex list \<Rightarrow> nat \<Rightarrow> string list \<Rightarrow> error + string list" where
  "fillSigningGroupOperators selectedOperators [] i signingGroupOperators =
     Inr signingGroupOperators"
| "fillSigningGroupOperators selectedOperators (operatingMemberID # rest) i signingGroupOperators =
     (if unat (operatingMemberID - 1) < length selectedOperators
      then fillSigningGroupOperators selectedOperators rest (Suc i)
             (signingGroupOperators[i := selectedOperators ! unat (operatingMemberID - 1)])
      else Inl (Panic ''index out of range''))"

definition resolveFinalSigningGroupOperators ::
  "('pk, 'gsr, 'cr) Chain \<Rightarrow> string list \<Rightarrow> MemberIndex list \<Rightarrow> error + string list" where
  "resolveFinalSigningGroupOperators chain selectedOperators operatingMembersIndexes =
     (let config = GetConfig chain in
      if int (length selectedOperators) \<noteq> GroupSize config
         \<or> int (length operatingMembersIndexes) < HonestThreshold config
      then Inl (Err ''invalid input parameters'')
      else
        let sorted = sort operatingMembersIndexes
        in fillSigningGroupOperators selectedOperators sorted 0
             (replicate (length operatingMembersIndexes) []))"

section \<open>SPV maintainer\<close>

subsection \<open>Data\<close>

text \<open>
  A Bitcoin transaction with the fields the maintainer reads; the \<^verbatim>\<open>Outpoint\<close> of an
  input is named \<open>InputOutpoint\<close>. A point in time is its offset from the Unix epoch, so
  \<^verbatim>\<open>t.Equal(time.Unix(0, 0))\<close> is \<open>t = 0\<close>.
\<close>

record TransactionInput =
  InputOutpoint :: TransactionOutpoint

record Transaction =
  Inputs :: "TransactionInput list"
  Outputs :: "TransactionOutput list"

record Deposit =
  RevealedAt :: int
  SweptAt :: int

record WalletChainData =
  MainUtxoHash :: bytes

record DepositSweepProposal =
  WalletPublicKeyHash :: bytes

record DepositSweepProposalSubmittedEvent =
  Proposal :: DepositSweepProposal

record DepositSweepProposalSubmittedEventFilter =
  StartBlock :: uint64

text \<open>
  The host chain and the Bitcoin chain as the maintainer uses them. Every call that
  returns an error in the code returns a sum here.
\<close>

record ('proof, 'vault) SpvChain =
  SpvBlockCounter :: "error + BlockCounter"
  PastDepositSweepProposalSubmittedEvents ::
    "DepositSweepProposalSubmittedEventFilter \<Rightarrow> error + DepositSweepProposalSubmittedEvent list"
  Deposits :: "bytes \<Rightarrow> uint32 \<Rightarrow> error + Deposit"
  GetWallet :: "bytes \<Rightarrow> error + WalletChainData"
  ComputeMainUtxoHash :: "UnspentTransactionOutput \<Rightarrow> bytes"
  TxProofDifficultyFactor :: "error + int"
  SubmitDepositSweepProofWithReimbursement ::
    "Transaction \<Rightarrow> 'proof \<Rightarrow> UnspentTransactionOutput option \<Rightarrow> 'vault \<Rightarrow> error option"

record BitcoinChain =
  GetTransaction :: "bytes \<Rightarrow> error + Transaction"
  GetTransactionsForPublicKeyHash :: "bytes \<Rightarrow> nat \<Rightarrow> error + Transaction list"

text \<open>A panic passes through a caller unchanged; any other error is replaced by the caller's.\<close>

fun rewrap :: "error \<Rightarrow> error \<Rightarrow> error" where
  "rewrap (Panic p) e = Panic p"
| "rewrap cause e = e"

subsection \<open>Classification of a transaction\<close>

text \<open>
  \<^verbatim>\<open>isInputCurrentWalletsMainUTXO\<close>. Reading the funding output beyond the outputs of the
  previous transaction panics.
\<close>

definition isInputCurrentWalletsMainUTXO ::
  "('proof, 'vault) SpvChain \<Rightarrow> BitcoinChain \<Rightarrow> bytes \<Rightarrow> uint32 \<Rightarrow> bytes \<Rightarrow> error + bool" where
  "isInputCurrentWalletsMainUTXO chain btcChain fundingTxHash fundingOutputIndex
       walletPublicKeyHash =
     (case GetTransaction btcChain fundingTxHash of
        Inl e \<Rightarrow> Inl (Wrapped ''failed to get previous transaction'' e)
      | Inr previousTransaction \<Rightarrow>
          if unat fundingOutputIndex < length (Outputs previousTransaction) then
            let fundingOutputValue = Value (Outputs previousTransaction ! unat fundingOutputIndex);
                mainUtxoHash =
                  ComputeMainUtxoHash chain
                    \<lparr>Outpoint = \<lparr>TransactionHash = fundingTxHash,
                                 OutputIndex = fundingOutputIndex\<rparr>,
                     UtxoValue = fundingOutputValue\<rparr>
            in (case GetWallet chain walletPublicKeyHash of
                  Inl e \<Rightarrow> Inl (Wrapped ''failed to get wallet'' e)
                | Inr wallet \<Rightarrow> Inr (mainUtxoHash = MainUtxoHash wallet))
          else Inl (Panic ''index out of range''))"

text \<open>
  The loop of \<^verbatim>\<open>isUnprovenDepositSweepTransaction\<close> over the inputs, with the flag
  \<open>hasDepositInputs\<close>. Its value is the value the function returns: an early
  \<^verbatim>\<open>return false, nil\<close>, an error, or the flag after the last input.
\<close>

fun depositSweepInputsLoop ::
  "('proof, 'vault) SpvChain \<Rightarrow> BitcoinChain \<Rightarrow> bytes \<Rightarrow> TransactionInput list \<Rightarrow> bool
     \<Rightarrow> error + bool" where
  "depositSweepInputsLoop chain btcChain walletPublicKeyHash [] hasDepositInputs =
     Inr hasDepositInputs"
| "depositSweepInputsLoop chain btcChain walletPublicKeyHash (input # rest) hasDepositInputs =
     (let fundingTransactionHash = TransactionHash (InputOutpoint input);
          fundingOutpointIndex = OutputIndex (InputOutpoint input)
      in case Deposits chain fundingTransactionHash fundingOutpointIndex of
           Inl e \<Rightarrow> Inl (Wrapped ''failed to get a deposit'' e)
         | Inr deposit \<Rightarrow>
             if RevealedAt deposit = 0 then
               (case isInputCurrentWalletsMainUTXO chain btcChain fundingTransactionHash
                       fundingOutpointIndex walletPublicKeyHash of
                  Inl e \<Rightarrow> Inl (rewrap e (Err ''failed to check if input is the main UTXO''))
                | Inr isMainUtxo \<Rightarrow>
                    if \<not> isMainUtxo then Inr False
                    else depositSweepInputsLoop chain btcChain walletPublicKeyHash rest
                           hasDepositInputs)
             else if SweptAt deposit = 0
               then depositSweepInputsLoop chain btcChain walletPublicKeyHash rest True
               else Inr False)"

definition isUnprovenDepositSweepTransaction ::
  "('proof, 'vault) SpvChain \<Rightarrow> BitcoinChain \<Rightarrow> Transaction \<Rightarrow> bytes \<Rightarrow> error + bool" where
  "isUnprovenDepositSweepTransaction chain btcChain transaction walletPublicKeyHash =
     (if length (Outputs transaction) \<noteq> 1 then Inr False
      else depositSweepInputsLoop chain btcChain walletPublicKeyHash (Inputs transaction) False)"









subsection \<open>Discovery of unproven transactions\<close>

text \<open>\<^verbatim>\<open>hex.EncodeToString\<close>: two lower-case hexadecimal digits per byte.\<close>

definition hexDigit :: "nat \<Rightarrow> char" where
  "hexDigit n = ''0123456789abcdef'' ! (n mod 16)"

definition EncodeToString :: "bytes \<Rightarrow> string" where
  "EncodeToString bs = concat (map (\<lambda>b. [hexDigit (unat b div 16), hexDigit (unat b mod 16)]) bs)"

text \<open>
  \<^verbatim>\<open>uniqueWalletPublicKeyHashes\<close>: the cache is the set of keys of a map to the empty
  struct.
\<close>

definition uniqueWalletPublicKeyHashes ::
  "DepositSweepProposalSubmittedEvent list \<Rightarrow> bytes list" where
  "uniqueWalletPublicKeyHashes events =
     snd (foldl
            (\<lambda>(cache, publicKeyHashes) event.
               let key = WalletPublicKeyHash (Proposal event);
                   strKey = EncodeToString key
               in if strKey \<notin> cache
                  then (insert strKey cache, publicKeyHashes @ [key])
                  else (cache, publicKeyHashes))
            ({}, []) events)"

text \<open>
  The two nested iterations of \<^verbatim>\<open>getUnprovenDepositSweepTransactions\<close>, over the transactions of
  a wallet and over the wallets; both stop at the first error.
\<close>

fun walletTransactionsLoop ::
  "('proof, 'vault) SpvChain \<Rightarrow> BitcoinChain \<Rightarrow> bytes \<Rightarrow> Transaction list \<Rightarrow> Transaction list
     \<Rightarrow> error + Transaction list" where
  "walletTransactionsLoop chain btcChain walletPublicKeyHash [] unproven = Inr unproven"
| "walletTransactionsLoop chain btcChain walletPublicKeyHash (transaction # rest) unproven =
     (case isUnprovenDepositSweepTransaction chain btcChain transaction walletPublicKeyHash of
        Inl e \<Rightarrow>
          Inl (rewrap e (Wrapped
                 ''failed to check if transaction is an unproven deposit sweep transaction'' e))
      | Inr isUnproven \<Rightarrow>
          walletTransactionsLoop chain btcChain walletPublicKeyHash rest
            (if isUnproven then unproven @ [transaction] else unproven))"

fun walletsLoop ::
  "('proof, 'vault) SpvChain \<Rightarrow> BitcoinChain \<Rightarrow> bytes list \<Rightarrow> Transaction list
     \<Rightarrow> error + Transaction list" where
  "walletsLoop chain btcChain [] unproven = Inr unproven"
| "walletsLoop chain btcChain (walletPublicKeyHash # rest) unproven =
     (case GetTransactionsForPublicKeyHash btcChain walletPublicKeyHash 5 of
        Inl e \<Rightarrow> Inl (Wrapped ''failed to get transactions for wallet'' e)
      | Inr walletTransactions \<Rightarrow>
          (case walletTransactionsLoop chain btcChain walletPublicKeyHash walletTransactions
                  unproven of
             Inl e \<Rightarrow> Inl e
           | Inr unproven' \<Rightarrow> walletsLoop chain btcChain rest unproven'))"

text \<open>
  \<^verbatim>\<open>getUnprovenDepositSweepTransactions\<close>. Besides its result the model returns the
  filters it has passed to \<^verbatim>\<open>PastDepositSweepProposalSubmittedEvents\<close>.
\<close>

definition getUnprovenDepositSweepTransactions ::
  "('proof, 'vault) SpvChain \<Rightarrow> BitcoinChain
     \<Rightarrow> DepositSweepProposalSubmittedEventFilter list \<times> (error + Transaction list)" where
  "getUnprovenDepositSweepTransactions chain btcChain =
     (case SpvBlockCounter chain of
        Inl e \<Rightarrow> ([], Inl (Wrapped ''failed to get block counter'' e))
      | Inr blockCounter \<Rightarrow>
          (case CurrentBlock blockCounter of
             Inl e \<Rightarrow> ([], Inl (Wrapped ''failed to get current block'' e))
           | Inr currentBlock \<Rightarrow>
               let startBlock = currentBlock - 40320;
                   filter = \<lparr>StartBlock = startBlock\<rparr>
               in ([filter],
                   case PastDepositSweepProposalSubmittedEvents chain filter of
                     Inl e \<Rightarrow>
                       Inl (Wrapped
                              ''failed to get past deposit sweep proposal submitted events'' e)
                   | Inr depositSweepTransactionProposals \<Rightarrow>
                       walletsLoop chain btcChain
                         (uniqueWalletPublicKeyHashes depositSweepTransactionProposals) [])))"

subsection \<open>Proving a batch\<close>

text \<open>
  The body of the loop of \<^verbatim>\<open>proveDepositSweepTransactions\<close> for one transaction.
  \<^verbatim>\<open>bitcoin.AssembleSpvProof\<close>, \<^verbatim>\<open>parseTransactionInputs\<close> and the hash of a
  transaction are not part of the sources and are arguments. The body yields whether
  \<^verbatim>\<open>SubmitDepositSweepProofWithReimbursement\<close> has been called, and the error with which
  the function returns, if any.
\<close>

definition proveTransaction ::
  "('proof, 'vault) SpvChain \<Rightarrow> (Transaction \<Rightarrow> bytes) \<Rightarrow> (bytes \<Rightarrow> uint64 \<Rightarrow> error + 'proof)
     \<Rightarrow> (Transaction \<Rightarrow> error + UnspentTransactionOutput option \<times> 'vault) \<Rightarrow> uint64
     \<Rightarrow> Transaction \<Rightarrow> bool \<times> error option" where
  "proveTransaction chain Hash AssembleSpvProof parseTransactionInputs requiredConfirmations
       transaction =
     (case AssembleSpvProof (Hash transaction) requiredConfirmations of
        Inl e \<Rightarrow> (False, Some (Wrapped ''failed to assemble SPV proof'' e))
      | Inr proof \<Rightarrow>
          (case parseTransactionInputs transaction of
             Inl e \<Rightarrow> (False, Some (Wrapped ''error while parsing transaction inputs'' e))
           | Inr (mainUTXO, vault) \<Rightarrow>
               (case SubmitDepositSweepProofWithReimbursement chain transaction proof mainUTXO
                       vault of
                  Some e \<Rightarrow>
                    (True,
                     Some (Wrapped
                             ''failed to submit deposit sweep proof with reimbursement'' e))
                | None \<Rightarrow> (True, None))))"

text \<open>
  The loop itself: an error of the body is returned at once. The loop returns the
  transactions for which the submission has been called, in order, and the error it
  returns (or nil).
\<close>

fun proveLoop ::
  "('proof, 'vault) SpvChain \<Rightarrow> (Transaction \<Rightarrow> bytes) \<Rightarrow> (bytes \<Rightarrow> uint64 \<Rightarrow> error + 'proof)
     \<Rightarrow> (Transaction \<Rightarrow> error + UnspentTransactionOutput option \<times> 'vault) \<Rightarrow> uint64
     \<Rightarrow> Transaction list \<Rightarrow> Transaction list \<Rightarrow> Transaction list \<times> error option" where
  "proveLoop chain Hash AssembleSpvProof parseTransactionInputs requiredConfirmations []
       submitted = (submitted, None)"
| "proveLoop chain Hash AssembleSpvProof parseTransactionInputs requiredConfirmations
       (transaction # rest) submitted =
     (case proveTransaction chain Hash AssembleSpvProof parseTransactionInputs
             requiredConfirmations transaction of
        (called, Some e) \<Rightarrow> (if called then submitted @ [transaction] else submitted, Some e)
      | (called, None) \<Rightarrow>
          proveLoop chain Hash AssembleSpvProof parseTransactionInputs requiredConfirmations
            rest (if called then submitted @ [transaction] else submitted))"


section \<open>Moving funds\<close>

text \<open>
  \<^verbatim>\<open>retrieveCommittedTargetWallets\<close> of the moving funds task, with the chain calls it
  makes. Besides its result the model returns the filters it has passed to
  \<^verbatim>\<open>PastMovingFundsCommitmentSubmittedEvents\<close>.
\<close>

definition MovingFundsCommitmentLookBackBlocks :: uint64 where
  "MovingFundsCommitmentLookBackBlocks = 216000"

record MovingFundsCommitmentSubmittedEventFilter =
  FilterStartBlock :: uint64
  FilterWalletPublicKeyHash :: "bytes list"

record MovingFundsCommitmentSubmittedEvent =
  TargetWallets :: "bytes list"

record MovingFundsChain =
  MovingFundsBlockCounter :: "error + BlockCounter"
  PastMovingFundsCommitmentSubmittedEvents ::
    "MovingFundsCommitmentSubmittedEventFilter
       \<Rightarrow> error + MovingFundsCommitmentSubmittedEvent list"
  ComputeMovingFundsCommitmentHash :: "bytes list \<Rightarrow> bytes"

definition retrieveCommittedTargetWallets ::
  "MovingFundsChain \<Rightarrow> bytes \<Rightarrow> bytes
     \<Rightarrow> MovingFundsCommitmentSubmittedEventFilter list \<times> (error + bytes list)" where
  "retrieveCommittedTargetWallets chain sourceWalletPublicKeyHash targetWalletsCommitmentHash =
     (case MovingFundsBlockCounter chain of
        Inl e \<Rightarrow> ([], Inl (Wrapped ''failed to get block counter'' e))
      | Inr blockCounter \<Rightarrow>
          (case CurrentBlock blockCounter of
             Inl e \<Rightarrow> ([], Inl (Wrapped ''failed to get current block number'' e))
           | Inr currentBlockNumber \<Rightarrow>
               let filterStartBlock =
                     (if MovingFundsCommitmentLookBackBlocks < currentBlockNumber
                      then currentBlockNumber - MovingFundsCommitmentLookBackBlocks
                      else 0);
                   filter = \<lparr>FilterStartBlock = filterStartBlock,
                             FilterWalletPublicKeyHash = [sourceWalletPublicKeyHash]\<rparr>
               in ([filter],
                   case PastMovingFundsCommitmentSubmittedEvents chain filter of
                     Inl e \<Rightarrow>
                       Inl (Wrapped
                              ''failed to get past moving funds commitment submitted events'' e)
                   | Inr events \<Rightarrow>
                       if length events \<noteq> 1
                       then Inl (Err
                              ''unexpected number of moving funds commitment submitted events'')
                       else
                         let targetWallets = TargetWallets (events ! 0);
                             calculatedHash = ComputeMovingFundsCommitmentHash chain targetWallets
                         in if calculatedHash \<noteq> targetWalletsCommitmentHash
                            then Inl (Err ''target wallets hash must match commitment hash'')
                            else Inr targetWallets)))"

section \<open>Sample data\<close>

text \<open>A pending request of 1\,000\,000 satoshi with a treasury fee of 1\,000 satoshi.\<close>

definition sample_request :: RedemptionRequest where
  "sample_request =
     \<lparr>Redeemer = ''0xredeemer'', RedeemerOutputScript = [0x00, 0x14],
      RequestedAmount = 1000000, TreasuryFee = 1000, TxMaxFee = 10000, RequestedAt = 1\<rparr>"

text \<open>A main UTXO of 5\,000\,000 satoshi.\<close>

definition sample_utxo :: UnspentTransactionOutput where
  "sample_utxo =
     \<lparr>Outpoint = \<lparr>TransactionHash = [0xAB, 0xCD], OutputIndex = 0\<rparr>, UtxoValue = 5000000\<rparr>"

text \<open>
  A group of five with an honest threshold of three and a publication step of ten blocks,
  a local result, three signatures, and a submission event that marks members 2 and 4
  as misbehaved.
\<close>

definition sample_signatures :: "MemberIndex \<rightharpoonup> bytes" where
  "sample_signatures = [1 \<mapsto> [0x01], 2 \<mapsto> [0x02], 3 \<mapsto> [0x03]]"

definition sample_result :: "unit Result" where
  "sample_result =
     \<lparr>GroupPublicKey = Inr (), ResultGroupPublicKeyBytes = Inr [0xAA],
      MemberIDs = [1, 2, 3, 4, 5], OperatingMemberIndexes = [1, 2, 3, 4, 5],
      MisbehavedMembersIndexes = []\<rparr>"

definition sample_config :: ChainConfig where
  "sample_config = \<lparr>GroupSize = 5, HonestThreshold = 3, ResultPublicationBlockStep = 10\<rparr>"

definition sample_block_counter :: BlockCounter where
  "sample_block_counter = \<lparr>CurrentBlock = Inr 100, BlockHeightWaiter = (\<lambda>h. None)\<rparr>"

definition sample_node_chain ::
  "(unit, unit, MemberIndex \<times> unit Result \<times> (MemberIndex \<rightharpoonup> bytes)) Chain" where
  "sample_node_chain =
     \<lparr>GetConfig = sample_config, GetDKGState = Inr AwaitingResult,
      BlockCounter = Inr sample_block_counter,
      AssembleDKGResult = (\<lambda>i pk operating misbehaved sigs gsr. Inl (Err ''not used'')),
      IsDKGResultValid = (\<lambda>r. Inr True), SubmitDKGResult = (\<lambda>r. None)\<rparr>"

definition sample_chain :: "(unit, unit, bytes) Chain" where
  "sample_chain =
     \<lparr>GetConfig = sample_config, GetDKGState = Inr AwaitingResult,
      BlockCounter = Inr sample_block_counter,
      AssembleDKGResult = (\<lambda>i pk operating misbehaved sigs gsr. Inr [0x2A]),
      IsDKGResultValid = (\<lambda>r. Inr True), SubmitDKGResult = (\<lambda>r. None)\<rparr>"

definition sample_event :: DKGResultSubmittedEvent where
  "sample_event = \<lparr>GroupPublicKeyBytes = [0xAA], Misbehaved = [2, 4], BlockNumber = 105\<rparr>"

text \<open>
  A wallet with three candidate transactions: a sweep of two revealed, unswept deposits
  into one output; a transaction with two outputs; and a transaction that spends only the
  wallet's main UTXO. A fourth transaction sweeps a third deposit. The main UTXO hash of
  the sample chain is the funding transaction hash followed by the output index.
\<close>

definition sample_deposits :: "bytes \<Rightarrow> uint32 \<Rightarrow> error + Deposit" where
  "sample_deposits fundingTxHash fundingOutputIndex =
     (if fundingTxHash = [0x01] then Inr \<lparr>RevealedAt = 1000, SweptAt = 0\<rparr>
      else if fundingTxHash = [0x02] then Inr \<lparr>RevealedAt = 2000, SweptAt = 0\<rparr>
      else if fundingTxHash = [0x03] then Inr \<lparr>RevealedAt = 3000, SweptAt = 0\<rparr>
      else Inr \<lparr>RevealedAt = 0, SweptAt = 0\<rparr>)"

definition sample_input :: "8 word \<Rightarrow> TransactionInput" where
  "sample_input h = \<lparr>InputOutpoint = \<lparr>TransactionHash = [h], OutputIndex = 0\<rparr>\<rparr>"

definition sample_output :: TransactionOutput where
  "sample_output = \<lparr>Value = 5000, PublicKeyScript = [0x00, 0x14]\<rparr>"

definition sample_sweep_tx :: Transaction where
  "sample_sweep_tx = \<lparr>Inputs = [sample_input 0x01, sample_input 0x02], Outputs = [sample_output]\<rparr>"

definition sample_two_outputs_tx :: Transaction where
  "sample_two_outputs_tx =
     \<lparr>Inputs = [sample_input 0x01], Outputs = [sample_output, sample_output]\<rparr>"

definition sample_main_utxo_tx :: Transaction where
  "sample_main_utxo_tx = \<lparr>Inputs = [sample_input 0x09], Outputs = [sample_output]\<rparr>"

definition sample_second_sweep_tx :: Transaction where
  "sample_second_sweep_tx = \<lparr>Inputs = [sample_input 0x03], Outputs = [sample_output]\<rparr>"

definition sample_spv_chain :: "(unit, unit) SpvChain" where
  "sample_spv_chain =
     \<lparr>SpvBlockCounter = Inr sample_block_counter,
      PastDepositSweepProposalSubmittedEvents =
        (\<lambda>filter. Inr [\<lparr>Proposal = \<lparr>WalletPublicKeyHash = [0x77]\<rparr>\<rparr>,
                       \<lparr>Proposal = \<lparr>WalletPublicKeyHash = [0x77]\<rparr>\<rparr>]),
      Deposits = sample_deposits,
      GetWallet = (\<lambda>walletPublicKeyHash. Inr \<lparr>MainUtxoHash = [0x09, 0x00]\<rparr>),
      ComputeMainUtxoHash =
        (\<lambda>utxo. TransactionHash (Outpoint utxo) @ [ucast (OutputIndex (Outpoint utxo))]),
      TxProofDifficultyFactor = Inr 6,
      SubmitDepositSweepProofWithReimbursement = (\<lambda>transaction proof mainUTXO vault. None)\<rparr>"

definition sample_btc_chain :: BitcoinChain where
  "sample_btc_chain =
     \<lparr>GetTransaction = (\<lambda>hash. Inr \<lparr>Inputs = [], Outputs = [sample_output]\<rparr>),
      GetTransactionsForPublicKeyHash =
        (\<lambda>walletPublicKeyHash limit.
           Inr [sample_sweep_tx, sample_two_outputs_tx, sample_main_utxo_tx,
                sample_second_sweep_tx])\<rparr>"




definition sample_moving_funds_chain :: MovingFundsChain where
  "sample_moving_funds_chain =
     \<lparr>MovingFundsBlockCounter = Inr sample_block_counter,
      PastMovingFundsCommitmentSubmittedEvents = (\<lambda>filter. Inr [\<lparr>TargetWallets = [[0x55]]\<rparr>]),
      ComputeMovingFundsCommitmentHash = concat\<rparr>"





section \<open>Fee distribution conserves the total fee\<close>

lemma foldl_update_upt:
  "k \<le> length xs \<Longrightarrow>
   foldl (\<lambda>s i. s[i := f i]) xs [0..<k] = map f [0..<k] @ drop k xs"
proof (induction k)
  case 0
  then show ?case by simp
next
  case (Suc k)
  then have "k < length xs" by simp
  then have "drop k xs = xs ! k # drop (Suc k) xs"
    by (simp add: Cons_nth_drop_Suc)
  with Suc show ?case
    by (simp add: list_update_append)
qed

lemma sint_word_of_int64:
  "- (2 ^ 63) \<le> k \<Longrightarrow> k < 2 ^ 63 \<Longrightarrow> sint (word_of_int k :: int64) = k"
  by (simp add: sint_sbintrunc' signed_take_bit_int_eq_self)

lemma sint_of_nat64: "n < 2 ^ 63 \<Longrightarrow> sint (word_of_nat n :: int64) = int n"
proof -
  assume "n < 2 ^ 63"
  then have "int n < 2 ^ 63" by (metis of_nat_less_numeral_power_cancel_iff)
  then have "sint (word_of_int (int n) :: int64) = int n"
    by (intro sint_word_of_int64) simp_all
  then show ?thesis by simp
qed

lemma smod_nonneg: "0 \<le> a \<Longrightarrow> 0 < b \<Longrightarrow> (a::int) smod b = a mod b"
  by (simp add: signed_modulo_int_def sgn_if)

lemma sdiv_nonneg: "0 \<le> a \<Longrightarrow> 0 < b \<Longrightarrow> (a::int) sdiv b = a div b"
  by (simp add: signed_divide_int_def sgn_if)

lemma withRedemptionTotalFee_shares:
  assumes "requests \<noteq> []" "length requests < 2 ^ 63"
  shows "withRedemptionTotalFee totalFee requests =
    Inr (map (\<lambda>i. if i = length requests - 1
           then go_quo64 (totalFee - go_rem64 totalFee (word_of_nat (length requests))) (word_of_nat (length requests))
                + go_rem64 totalFee (word_of_nat (length requests))
           else go_quo64 (totalFee - go_rem64 totalFee (word_of_nat (length requests))) (word_of_nat (length requests)))
         [0..<length requests])"
proof -
  have "sint (word_of_nat (length requests) :: int64) = int (length requests)"
    using assms(2) by (rule sint_of_nat64)
  moreover have "int (length requests) \<noteq> 0" using assms(1) by simp
  ultimately have "(word_of_nat (length requests) :: int64) \<noteq> 0"
    by (metis sint_0)
  then show ?thesis
    by (simp add: withRedemptionTotalFee_def Let_def foldl_update_upt)
qed


lemma fee_rem:
  assumes "0 \<le> sint totalFee" "0 < n" "n < 2 ^ 63"
  shows "sint (go_rem64 totalFee (word_of_nat n)) = sint totalFee mod int n"
proof -
  have n: "sint (word_of_nat n :: int64) = int n" using assms(3) by (rule sint_of_nat64)
  have "sint totalFee mod int n \<le> sint totalFee"
    using assms(1,2) by (simp add: zmod_le_nonneg_dividend)
  moreover have "sint totalFee < 2 ^ 63" using sint_lt [of totalFee] by simp
  moreover have "0 \<le> sint totalFee mod int n" using assms(2) by simp
  ultimately have "sint (word_of_int (sint totalFee mod int n) :: int64) = sint totalFee mod int n"
    by (intro sint_word_of_int64) linarith+
  then show ?thesis using assms(1,2) by (simp add: go_rem64_def n smod_nonneg)
qed

lemma fee_quo:
  assumes "0 \<le> sint totalFee" "0 < n" "n < 2 ^ 63"
  shows "sint (go_quo64 (totalFee - go_rem64 totalFee (word_of_nat n)) (word_of_nat n))
         = sint totalFee div int n"
proof -
  let ?T = "sint totalFee"
  have n: "sint (word_of_nat n :: int64) = int n" using assms(3) by (rule sint_of_nat64)
  have r: "sint (go_rem64 totalFee (word_of_nat n)) = ?T mod int n"
    using assms by (rule fee_rem)
  have T: "?T < 2 ^ 63" using sint_lt [of totalFee] by simp
  have le: "?T mod int n \<le> ?T" using assms(1,2) by (simp add: zmod_le_nonneg_dividend)
  have ge: "0 \<le> ?T mod int n" using assms(2) by simp
  have "sint (totalFee - go_rem64 totalFee (word_of_nat n)) = ?T - ?T mod int n"
    using T le ge assms(1) by (simp add: sint_word_diff r signed_take_bit_int_eq_self)
  moreover have "(?T - ?T mod int n) div int n = ?T div int n"
    by (simp add: minus_mod_eq_mult_div)
  moreover have "0 \<le> ?T div int n" using assms(1,2) by (simp add: pos_imp_zdiv_nonneg_iff)
  moreover have "?T div int n \<le> ?T" using zdiv_mono2 [of "?T" 1 "int n"] assms(1,2) by simp
  ultimately show ?thesis
    using T le ge assms(1,2)
    by (simp add: go_quo64_def n sdiv_nonneg sint_word_of_int64)
qed


lemma fee_last:
  assumes "0 \<le> sint totalFee" "0 < n" "n < 2 ^ 63"
  shows "sint (go_quo64 (totalFee - go_rem64 totalFee (word_of_nat n)) (word_of_nat n)
               + go_rem64 totalFee (word_of_nat n))
         = sint totalFee div int n + sint totalFee mod int n"
proof -
  let ?T = "sint totalFee"
  have T: "?T < 2 ^ 63" using sint_lt [of totalFee] by simp
  have "int n * (?T div int n) + ?T mod int n = ?T" by simp
  moreover have "0 \<le> ?T div int n" using assms(1,2) by (simp add: pos_imp_zdiv_nonneg_iff)
  moreover have "?T div int n \<le> int n * (?T div int n)"
    using assms(2) \<open>0 \<le> ?T div int n\<close> by (simp add: mult_le_cancel_right1)
  moreover have "0 \<le> ?T mod int n" using assms(2) by simp
  ultimately have "0 \<le> ?T div int n + ?T mod int n" "?T div int n + ?T mod int n \<le> ?T"
    by linarith+
  then show ?thesis
    using T by (simp add: sint_word_ariths fee_quo [OF assms] fee_rem [OF assms]
        signed_take_bit_int_eq_self)
qed

text \<open>
  Claim C2. For a request list of length \<open>N \<ge> 1\<close> and a non-negative total fee,
  \<^const>\<open>withRedemptionTotalFee\<close> returns \<open>N\<close> shares whose sum is the total fee;
  every share but the last is \<open>\<lfloor>totalFee / N\<rfloor>\<close> and the last one is
  \<open>\<lfloor>totalFee / N\<rfloor> + totalFee mod N\<close>. The shares are read as signed 64-bit
  values, and the sum is taken over the integers, so no share and no partial sum wraps.
\<close>

theorem withRedemptionTotalFee_conserves_total:
  assumes "1 \<le> length requests" "length requests < 2 ^ 63" "0 \<le>s totalFee"
  shows "\<exists>feeShares. withRedemptionTotalFee totalFee requests = Inr feeShares
           \<and> length feeShares = length requests
           \<and> (\<Sum>s\<leftarrow>feeShares. sint s) = sint totalFee
           \<and> (\<forall>i < length requests - 1.
                 sint (feeShares ! i) = sint totalFee div int (length requests))
           \<and> sint (feeShares ! (length requests - 1))
               = sint totalFee div int (length requests) + sint totalFee mod int (length requests)"
proof -
  let ?n = "length requests"
  let ?r = "go_rem64 totalFee (word_of_nat ?n)"
  let ?q = "go_quo64 (totalFee - ?r) (word_of_nat ?n)"
  let ?f = "\<lambda>i. if i = ?n - 1 then ?q + ?r else ?q"
  let ?T = "sint totalFee"
  have T: "0 \<le> ?T" using assms(3) by (simp add: word_sle_eq)
  have n: "0 < ?n" using assms(1) by (cases requests) simp_all
  then have ne: "requests \<noteq> []" by auto
  have eq: "withRedemptionTotalFee totalFee requests = Inr (map ?f [0..<?n])"
    using ne assms(2) by (rule withRedemptionTotalFee_shares)
  have q: "sint ?q = ?T div int ?n" using T n assms(2) by (rule fee_quo)
  have l: "sint (?q + ?r) = ?T div int ?n + ?T mod int ?n" using T n assms(2) by (rule fee_last)
  have pred: "int (?n - 1) = int ?n - 1"
    using of_nat_diff [OF assms(1), where ?'a = int] by simp
  have upt: "[0..<?n] = [0..<?n - 1] @ [?n - 1]"
    using n by (metis Suc_pred' upt_Suc_append zero_le)
  have "map ?f [0..<?n - 1] = replicate (?n - 1) ?q"
    by (rule nth_equalityI) simp_all
  then have "(\<Sum>s\<leftarrow>map ?f [0..<?n - 1]. sint s) = int (?n - 1) * (?T div int ?n)"
    by (simp only: map_replicate sum_list_replicate q)
  then have sum: "(\<Sum>s\<leftarrow>map ?f [0..<?n]. sint s) = ?T"
  proof -
    assume a: "(\<Sum>s\<leftarrow>map ?f [0..<?n - 1]. sint s) = int (?n - 1) * (?T div int ?n)"
    have "(\<Sum>s\<leftarrow>map ?f [0..<?n]. sint s)
           = (\<Sum>s\<leftarrow>map ?f [0..<?n - 1]. sint s) + sint (?q + ?r)"
      by (subst upt) simp
    also have "\<dots> = int (?n - 1) * (?T div int ?n) + (?T div int ?n + ?T mod int ?n)"
      by (simp only: a l)
    also have "\<dots> = int ?n * (?T div int ?n) + ?T mod int ?n"
      by (simp only: pred) (simp add: algebra_simps)
    also have "\<dots> = ?T" by simp
    finally show ?thesis .
  qed
  have others: "\<forall>i < ?n - 1. sint (map ?f [0..<?n] ! i) = ?T div int ?n"
    using q by simp
  have last: "sint (map ?f [0..<?n] ! (?n - 1)) = ?T div int ?n + ?T mod int ?n"
    using n l by simp
  show ?thesis
    using sum others last by (simp only: eq) simp
qed

theorem withRedemptionTotalFee_conserves_total_witness:
  "\<exists>feeShares. withRedemptionTotalFee 1001 [sample_request, sample_request, sample_request, sample_request] = Inr feeShares
           \<and> length feeShares = 4
           \<and> (\<Sum>s\<leftarrow>feeShares. sint s) = 1001
           \<and> (\<forall>i < 3. sint (feeShares ! i) = 250)
           \<and> sint (feeShares ! 3) = 251"
proof -
  have "1 \<le> length [sample_request, sample_request, sample_request, sample_request]" and "length [sample_request, sample_request, sample_request, sample_request] < 2 ^ 63"
    and "(0 :: int64) \<le>s 1001"
    by (simp_all add: word_sle_eq)
  moreover have four: "(4::nat) = Suc (Suc (Suc (Suc 0)))" by simp
  ultimately show ?thesis
    using withRedemptionTotalFee_conserves_total [of "[sample_request, sample_request, sample_request, sample_request]" 1001]
    by (simp add: numeral_3_eq_3 four)
qed

section \<open>Assembling the redemption transaction\<close>

lemma redemptionOutputsLoop_result:
  "length requests + i \<le> length feeShares \<Longrightarrow>
   redemptionOutputsLoop requests feeShares i (totalFee, totalValue, outs) =
     Inr (totalFee + sum_list (take (length requests) (drop i feeShares)),
          totalValue + sum_list (map Value (redemptionOutputsFor requests (drop i feeShares))),
          outs @ redemptionOutputsFor requests (drop i feeShares))"
proof (induction requests arbitrary: i totalFee totalValue outs)
  case Nil
  then show ?case by (simp add: redemptionOutputsFor_def)
next
  case (Cons request rest)
  then have i: "i < length feeShares" and rest: "length rest + Suc i \<le> length feeShares"
    by simp_all
  have d: "drop i feeShares = feeShares ! i # drop (Suc i) feeShares"
    using i by (simp add: Cons_nth_drop_Suc)
  show ?case
    using i Cons.IH [OF rest]
    by (simp add: d Let_def redemptionOutputsFor_def redemptionOutputFor_def algebra_simps)
qed

lemma redemptionOutputsLoop_panic:
  "length feeShares < length requests + i \<Longrightarrow> i \<le> length feeShares \<Longrightarrow>
   redemptionOutputsLoop requests feeShares i (totalFee, totalValue, outs) =
     Inl (Panic ''index out of range'')"
proof (induction requests arbitrary: i totalFee totalValue outs)
  case Nil
  then show ?case by simp
next
  case (Cons request rest)
  show ?case
  proof (cases "i < length feeShares")
    case True
    with Cons.prems have "length feeShares < length rest + Suc i" by simp
    then show ?thesis using True Cons.IH by (simp add: Let_def)
  next
    case False
    then show ?thesis by simp
  qed
qed

lemma foldl_AddOutput:
  "foldl AddOutput builder outs = builder\<lparr>outputs := outputs builder @ outs\<rparr>"
  by (induction outs arbitrary: builder) (simp_all add: AddOutput_def)

lemma assembleRedemptionTransaction_built:
  assumes "requests \<noteq> []" and "bitcoinChain utxo = None"
    and "feeDistribution requests = Inr feeShares"
    and "length requests \<le> length feeShares"
  shows "assembleRedemptionTransaction bitcoinChain p2wpkh walletPublicKey (Some utxo) requests
           feeDistribution shape =
         (if 0 <s changeValueFor utxo requests feeShares then
            (case p2wpkh walletPublicKey of
               Inl e \<Rightarrow> Inl (Wrapped ''cannot compute change output script'' e)
             | Inr script \<Rightarrow>
                 if resolvedShapeOf shape = RedemptionChangeFirst then
                   Inr \<lparr>inputs = [utxo],
                        outputs = \<lparr>Value = changeValueFor utxo requests feeShares,
                                   PublicKeyScript = script\<rparr>
                                  # redemptionOutputsFor requests feeShares\<rparr>
                 else if resolvedShapeOf shape = RedemptionChangeLast then
                   Inr \<lparr>inputs = [utxo],
                        outputs = redemptionOutputsFor requests feeShares
                                  @ [\<lparr>Value = changeValueFor utxo requests feeShares,
                                      PublicKeyScript = script\<rparr>]\<rparr>
                 else Inl (Panic ''unknown redemption transaction shape''))
          else Inr \<lparr>inputs = [utxo], outputs = redemptionOutputsFor requests feeShares\<rparr>)"
proof -
  have loop: "redemptionOutputsLoop requests feeShares 0 (0, 0, []) =
      Inr (sum_list (take (length requests) feeShares),
           sum_list (map Value (redemptionOutputsFor requests feeShares)),
           redemptionOutputsFor requests feeShares)"
    using redemptionOutputsLoop_result [of requests 0 feeShares 0 0 "[]"] assms(4) by simp
  have len: "\<not> length requests < 1" using assms(1) by (cases requests) simp_all
  show ?thesis
    unfolding assembleRedemptionTransaction_def
    using len assms(2,3)
    by (simp add: AddPublicKeyHashInput_def NewTransactionBuilder_def loop TotalInputsValue_def
        changeValueFor_def foldl_AddOutput resolvedShapeOf_def Let_def
        del: foldl_Cons split: sum.splits)
qed


lemma assembleRedemptionTransaction_Inr_D:
  assumes "assembleRedemptionTransaction bitcoinChain p2wpkh walletPublicKey walletMainUtxo
             requests feeDistribution shape = Inr tx"
  shows "\<exists>utxo feeShares. walletMainUtxo = Some utxo \<and> requests \<noteq> [] \<and> bitcoinChain utxo = None
           \<and> feeDistribution requests = Inr feeShares \<and> length requests \<le> length feeShares"
proof -
  from assms obtain utxo where u: "walletMainUtxo = Some utxo"
    by (cases walletMainUtxo) (simp_all add: assembleRedemptionTransaction_def)
  from assms u have ne: "requests \<noteq> []"
    by (auto simp: assembleRedemptionTransaction_def)
  from assms u ne have bc: "bitcoinChain utxo = None"
    by (cases "bitcoinChain utxo")
       (auto simp: assembleRedemptionTransaction_def AddPublicKeyHashInput_def)
  from assms u ne bc obtain feeShares where fs: "feeDistribution requests = Inr feeShares"
    by (cases "feeDistribution requests")
       (auto simp: assembleRedemptionTransaction_def AddPublicKeyHashInput_def)
  have "length requests \<le> length feeShares"
  proof (rule ccontr)
    assume "\<not> length requests \<le> length feeShares"
    then have "redemptionOutputsLoop requests feeShares 0 (0, 0, []) =
        Inl (Panic ''index out of range'')"
      by (intro redemptionOutputsLoop_panic) simp_all
    with assms u ne bc fs show False
      by (simp add: assembleRedemptionTransaction_def AddPublicKeyHashInput_def)
  qed
  with u ne bc fs show ?thesis by blast
qed


lemma shapes_distinct: "RedemptionChangeLast \<noteq> RedemptionChangeFirst"
  by (simp add: RedemptionChangeLast_def RedemptionChangeFirst_def)

lemma redemptionOutputsFor_nth:
  assumes "i < length requests" "length requests \<le> length feeShares"
  shows "redemptionOutputsFor requests feeShares ! i =
           \<lparr>Value = RequestedAmount (requests ! i) - TreasuryFee (requests ! i) - feeShares ! i,
            PublicKeyScript = RedeemerOutputScript (requests ! i)\<rparr>"
  using assms by (simp add: redemptionOutputsFor_def redemptionOutputFor_def)

lemma redemptionOutputsFor_length:
  "length requests \<le> length feeShares \<Longrightarrow>
   length (redemptionOutputsFor requests feeShares) = length requests"
  by (simp add: redemptionOutputsFor_def)

text \<open>
  Claim C3. Without a main UTXO, or with an empty request list,
  \<^const>\<open>assembleRedemptionTransaction\<close> returns an error. For a non-empty request list
  it builds a transaction whose only input is the wallet's main UTXO and which has, for
  each request in order, one output paying the request's \<open>RedeemerOutputScript\<close> the
  value \<open>RequestedAmount - TreasuryFee - feeShares[i]\<close> (computed on 64-bit values);
  besides these the output vector holds at most one more output, at its head or at its
  end. The transaction is built whenever the Bitcoin chain accepts the input, the fee
  distribution returns a share for every request, and, in case there is a change, the
  change script can be derived and the shape is one of the two known ones.
\<close>

theorem assembleRedemptionTransaction_redemption_outputs:
  "assembleRedemptionTransaction bitcoinChain p2wpkh walletPublicKey None requests
       feeDistribution shape = Inl (Err ''wallet main UTXO is required'')
   \<and> assembleRedemptionTransaction bitcoinChain p2wpkh walletPublicKey (Some utxo) []
       feeDistribution shape = Inl (Err ''at least one redemption request is required'')
   \<and> (requests \<noteq> [] \<and> bitcoinChain utxo = None
        \<and> feeDistribution requests = Inr feeShares \<and> length requests \<le> length feeShares
        \<and> (0 <s changeValueFor utxo requests feeShares \<longrightarrow>
              (\<exists>script. p2wpkh walletPublicKey = Inr script)
              \<and> resolvedShapeOf shape \<in> {RedemptionChangeFirst, RedemptionChangeLast})
      \<longrightarrow> (\<exists>tx pre post.
             assembleRedemptionTransaction bitcoinChain p2wpkh walletPublicKey (Some utxo)
               requests feeDistribution shape = Inr tx
             \<and> inputs tx = [utxo]
             \<and> outputs tx = pre @ redemptionOutputsFor requests feeShares @ post
             \<and> length pre + length post \<le> 1
             \<and> length (redemptionOutputsFor requests feeShares) = length requests
             \<and> (\<forall>i < length requests.
                   redemptionOutputsFor requests feeShares ! i =
                     \<lparr>Value = RequestedAmount (requests ! i) - TreasuryFee (requests ! i)
                                - feeShares ! i,
                      PublicKeyScript = RedeemerOutputScript (requests ! i)\<rparr>)))"
proof (intro conjI impI)
  show "assembleRedemptionTransaction bitcoinChain p2wpkh walletPublicKey None requests
       feeDistribution shape = Inl (Err ''wallet main UTXO is required'')"
    by (simp add: assembleRedemptionTransaction_def)
  show "assembleRedemptionTransaction bitcoinChain p2wpkh walletPublicKey (Some utxo) []
       feeDistribution shape = Inl (Err ''at least one redemption request is required'')"
    by (simp add: assembleRedemptionTransaction_def)
next
  let ?E = "redemptionOutputsFor requests feeShares"
  let ?c = "changeValueFor utxo requests feeShares"
  assume h: "requests \<noteq> [] \<and> bitcoinChain utxo = None
        \<and> feeDistribution requests = Inr feeShares \<and> length requests \<le> length feeShares
        \<and> (0 <s ?c \<longrightarrow>
              (\<exists>script. p2wpkh walletPublicKey = Inr script)
              \<and> resolvedShapeOf shape \<in> {RedemptionChangeFirst, RedemptionChangeLast})"
  then have built: "assembleRedemptionTransaction bitcoinChain p2wpkh walletPublicKey (Some utxo)
           requests feeDistribution shape =
         (if 0 <s ?c then
            (case p2wpkh walletPublicKey of
               Inl e \<Rightarrow> Inl (Wrapped ''cannot compute change output script'' e)
             | Inr script \<Rightarrow>
                 if resolvedShapeOf shape = RedemptionChangeFirst then
                   Inr \<lparr>inputs = [utxo],
                        outputs = \<lparr>Value = ?c, PublicKeyScript = script\<rparr> # ?E\<rparr>
                 else if resolvedShapeOf shape = RedemptionChangeLast then
                   Inr \<lparr>inputs = [utxo],
                        outputs = ?E @ [\<lparr>Value = ?c, PublicKeyScript = script\<rparr>]\<rparr>
                 else Inl (Panic ''unknown redemption transaction shape''))
          else Inr \<lparr>inputs = [utxo], outputs = ?E\<rparr>)"
    by (intro assembleRedemptionTransaction_built) simp_all
  have shape: "\<exists>tx pre post.
             assembleRedemptionTransaction bitcoinChain p2wpkh walletPublicKey (Some utxo)
               requests feeDistribution shape = Inr tx
             \<and> inputs tx = [utxo] \<and> outputs tx = pre @ ?E @ post \<and> length pre + length post \<le> 1"
  proof (cases "0 <s ?c")
    case False
    then have "assembleRedemptionTransaction bitcoinChain p2wpkh walletPublicKey (Some utxo)
               requests feeDistribution shape = Inr \<lparr>inputs = [utxo], outputs = ?E\<rparr>"
      by (simp add: built)
    then show ?thesis
      by (intro exI [of _ "\<lparr>inputs = [utxo], outputs = ?E\<rparr>"] exI [of _ "[]"]) simp
  next
    case True
    with h obtain script where sc: "p2wpkh walletPublicKey = Inr script"
      and sh: "resolvedShapeOf shape = RedemptionChangeFirst \<or> resolvedShapeOf shape = RedemptionChangeLast"
      by auto
    let ?ch = "\<lparr>Value = ?c, PublicKeyScript = script\<rparr>"
    from sh show ?thesis
    proof
      assume "resolvedShapeOf shape = RedemptionChangeFirst"
      then have "assembleRedemptionTransaction bitcoinChain p2wpkh walletPublicKey (Some utxo)
               requests feeDistribution shape = Inr \<lparr>inputs = [utxo], outputs = ?ch # ?E\<rparr>"
        using True sc by (simp add: built)
      then show ?thesis
        by (intro exI [of _ "\<lparr>inputs = [utxo], outputs = ?ch # ?E\<rparr>"] exI [of _ "[?ch]"]
            exI [of _ "[]"]) simp
    next
      assume l: "resolvedShapeOf shape = RedemptionChangeLast"
      then have "assembleRedemptionTransaction bitcoinChain p2wpkh walletPublicKey (Some utxo)
               requests feeDistribution shape = Inr \<lparr>inputs = [utxo], outputs = ?E @ [?ch]\<rparr>"
        using True sc by (simp add: built shapes_distinct)
      then show ?thesis
        by (intro exI [of _ "\<lparr>inputs = [utxo], outputs = ?E @ [?ch]\<rparr>"] exI [of _ "[]"]
            exI [of _ "[?ch]"]) simp
    qed
  qed
  have len: "length ?E = length requests"
    using h by (simp add: redemptionOutputsFor_length)
  have nth: "\<forall>i < length requests. ?E ! i =
                     \<lparr>Value = RequestedAmount (requests ! i) - TreasuryFee (requests ! i)
                                - feeShares ! i,
                      PublicKeyScript = RedeemerOutputScript (requests ! i)\<rparr>"
    using h by (simp add: redemptionOutputsFor_nth)
  from shape len nth
  show "\<exists>tx pre post.
             assembleRedemptionTransaction bitcoinChain p2wpkh walletPublicKey (Some utxo)
               requests feeDistribution shape = Inr tx
             \<and> inputs tx = [utxo]
             \<and> outputs tx = pre @ ?E @ post
             \<and> length pre + length post \<le> 1
             \<and> length ?E = length requests
             \<and> (\<forall>i < length requests.
                   ?E ! i =
                     \<lparr>Value = RequestedAmount (requests ! i) - TreasuryFee (requests ! i)
                                - feeShares ! i,
                      PublicKeyScript = RedeemerOutputScript (requests ! i)\<rparr>)"
    by blast
qed


theorem assembleRedemptionTransaction_redemption_outputs_witness:
  "\<exists>tx pre post.
      assembleRedemptionTransaction (\<lambda>_. None) (\<lambda>_. Inr [0x00, 0x14]) () (Some sample_utxo)
        [sample_request, sample_request] (withRedemptionTotalFee 501) [] = Inr tx
      \<and> inputs tx = [sample_utxo]
      \<and> outputs tx = pre @ [\<lparr>Value = 998750, PublicKeyScript = [0x00, 0x14]\<rparr>,
                             \<lparr>Value = 998749, PublicKeyScript = [0x00, 0x14]\<rparr>] @ post
      \<and> length pre + length post \<le> 1"
proof -
  let ?rs = "[sample_request, sample_request]"
  have fs: "withRedemptionTotalFee 501 ?rs = Inr [250, 251]"
    by code_simp
  have outs: "redemptionOutputsFor ?rs [250, 251] =
      [\<lparr>Value = 998750, PublicKeyScript = [0x00, 0x14]\<rparr>,
       \<lparr>Value = 998749, PublicKeyScript = [0x00, 0x14]\<rparr>]"
    by code_simp
  have sh: "resolvedShapeOf [] = RedemptionChangeFirst"
    by (simp add: resolvedShapeOf_def)
  have "?rs \<noteq> [] \<and> (\<lambda>_. None) sample_utxo = None
        \<and> withRedemptionTotalFee 501 ?rs = Inr [250, 251] \<and> length ?rs \<le> length [250, 251 :: int64]
        \<and> (0 <s changeValueFor sample_utxo ?rs [250, 251] \<longrightarrow>
              (\<exists>script. (\<lambda>_. Inr [0x00, 0x14]) () = Inr script)
              \<and> resolvedShapeOf [] \<in> {RedemptionChangeFirst, RedemptionChangeLast})"
    by (simp add: fs sh)
  with assembleRedemptionTransaction_redemption_outputs
         [of "\<lambda>_. None" "\<lambda>_. Inr [0x00, 0x14]" "()" ?rs "withRedemptionTotalFee 501" "[]"
             sample_utxo "[250, 251]"]
  show ?thesis
    by (simp only: outs) blast
qed

text \<open>
  Claim C4. In a transaction built by \<^const>\<open>assembleRedemptionTransaction\<close> a change
  output is present (the output vector is one longer than the request list) if and only
  if the change value, that is the input value less the redemption outputs and the fee
  shares, is strictly positive as a signed 64-bit value. When present, the change output
  pays that value to the wallet's P2WPKH script and is the first output under
  \<open>RedemptionChangeFirst\<close> and the last one under \<open>RedemptionChangeLast\<close>.
\<close>

theorem assembleRedemptionTransaction_change_placement:
  assumes "assembleRedemptionTransaction bitcoinChain p2wpkh walletPublicKey (Some utxo)
             requests feeDistribution shape = Inr tx"
    and "feeDistribution requests = Inr feeShares"
  shows "(0 <s changeValueFor utxo requests feeShares
            \<longleftrightarrow> length (outputs tx) = Suc (length requests))
       \<and> (\<not> 0 <s changeValueFor utxo requests feeShares
            \<longleftrightarrow> outputs tx = redemptionOutputsFor requests feeShares)
       \<and> (0 <s changeValueFor utxo requests feeShares \<longrightarrow>
            (\<exists>script. p2wpkh walletPublicKey = Inr script
               \<and> (resolvedShapeOf shape = RedemptionChangeFirst \<longrightarrow>
                    outputs tx = \<lparr>Value = changeValueFor utxo requests feeShares,
                                   PublicKeyScript = script\<rparr>
                                 # redemptionOutputsFor requests feeShares)
               \<and> (resolvedShapeOf shape = RedemptionChangeLast \<longrightarrow>
                    outputs tx = redemptionOutputsFor requests feeShares
                                 @ [\<lparr>Value = changeValueFor utxo requests feeShares,
                                     PublicKeyScript = script\<rparr>])
               \<and> (resolvedShapeOf shape = RedemptionChangeFirst
                    \<or> resolvedShapeOf shape = RedemptionChangeLast)))"
proof -
  let ?E = "redemptionOutputsFor requests feeShares"
  let ?c = "changeValueFor utxo requests feeShares"
  from assembleRedemptionTransaction_Inr_D [OF assms(1)] assms(2)
  have ne: "requests \<noteq> []" and bc: "bitcoinChain utxo = None"
    and len: "length requests \<le> length feeShares"
    by auto
  have lenE: "length ?E = length requests"
    using len by (rule redemptionOutputsFor_length)
  have built: "Inr tx =
         (if 0 <s ?c then
            (case p2wpkh walletPublicKey of
               Inl e \<Rightarrow> Inl (Wrapped ''cannot compute change output script'' e)
             | Inr script \<Rightarrow>
                 if resolvedShapeOf shape = RedemptionChangeFirst then
                   Inr \<lparr>inputs = [utxo],
                        outputs = \<lparr>Value = ?c, PublicKeyScript = script\<rparr> # ?E\<rparr>
                 else if resolvedShapeOf shape = RedemptionChangeLast then
                   Inr \<lparr>inputs = [utxo],
                        outputs = ?E @ [\<lparr>Value = ?c, PublicKeyScript = script\<rparr>]\<rparr>
                 else Inl (Panic ''unknown redemption transaction shape''))
          else Inr \<lparr>inputs = [utxo], outputs = ?E\<rparr>)"
    using assembleRedemptionTransaction_built
            [of requests bitcoinChain utxo feeDistribution feeShares p2wpkh walletPublicKey shape]
      ne bc assms len by simp
  show ?thesis
  proof (cases "0 <s ?c")
    case False
    with built have "outputs tx = ?E" by simp
    with False lenE show ?thesis by simp
  next
    case True
    with built obtain script where sc: "p2wpkh walletPublicKey = Inr script"
      by (cases "p2wpkh walletPublicKey") simp_all
    let ?ch = "\<lparr>Value = ?c, PublicKeyScript = script\<rparr>"
    from built True sc
    have sh: "resolvedShapeOf shape = RedemptionChangeFirst \<or> resolvedShapeOf shape = RedemptionChangeLast"
      by (auto split: if_splits)
    have first: "resolvedShapeOf shape = RedemptionChangeFirst \<Longrightarrow> outputs tx = ?ch # ?E"
      using built True sc by simp
    have last: "resolvedShapeOf shape = RedemptionChangeLast \<Longrightarrow> outputs tx = ?E @ [?ch]"
      using built True sc by (simp add: shapes_distinct)
    have l: "length (outputs tx) = Suc (length requests)"
      using sh first last lenE by auto
    then have "outputs tx \<noteq> ?E" using lenE by auto
    with True l sc sh first last show ?thesis by auto
  qed
qed


theorem assembleRedemptionTransaction_change_placement_witness:
  "\<exists>tx. assembleRedemptionTransaction (\<lambda>_. None) (\<lambda>_. Inr [0x00, 0x14]) () (Some sample_utxo)
          [sample_request, sample_request] (withRedemptionTotalFee 501) [RedemptionChangeLast]
        = Inr tx
      \<and> 0 <s changeValueFor sample_utxo [sample_request, sample_request] [250, 251]
      \<and> length (outputs tx) = 3
      \<and> outputs tx = [\<lparr>Value = 998750, PublicKeyScript = [0x00, 0x14]\<rparr>,
                       \<lparr>Value = 998749, PublicKeyScript = [0x00, 0x14]\<rparr>,
                       \<lparr>Value = 3002000, PublicKeyScript = [0x00, 0x14]\<rparr>]"
proof -
  let ?rs = "[sample_request, sample_request]"
  let ?tx = "\<lparr>inputs = [sample_utxo],
             outputs = [\<lparr>Value = 998750, PublicKeyScript = [0x00, 0x14]\<rparr>,
                        \<lparr>Value = 998749, PublicKeyScript = [0x00, 0x14]\<rparr>,
                        \<lparr>Value = 3002000, PublicKeyScript = [0x00, 0x14]\<rparr>]\<rparr>"
  have a: "assembleRedemptionTransaction (\<lambda>_. None) (\<lambda>_. Inr [0x00, 0x14]) () (Some sample_utxo)
          ?rs (withRedemptionTotalFee 501) [RedemptionChangeLast] = Inr ?tx"
    by code_simp
  have fs: "withRedemptionTotalFee 501 ?rs = Inr [250, 251]"
    by code_simp
  have c: "changeValueFor sample_utxo ?rs [250, 251] = 3002000"
    by code_simp
  have pos: "(0 :: int64) <s 3002000"
    by (simp add: word_sless_alt)
  from assembleRedemptionTransaction_change_placement [OF a fs]
  have "0 <s changeValueFor sample_utxo ?rs [250, 251]
          \<longleftrightarrow> length (outputs ?tx) = Suc (length ?rs)"
    by blast
  then have "0 <s changeValueFor sample_utxo ?rs [250, 251]"
    by simp
  with a show ?thesis
    by simp
qed

section \<open>DKG result submission and member fate\<close>

lemma selectWaiterOrEvent_fired:
  "selectWaiterOrEvent h events = WaiterFired b \<Longrightarrow> h \<le> b"
  by (induction h events rule: selectWaiterOrEvent.induct) (auto split: if_splits)

lemma waitForBlockHeight_reached:
  "waitForBlockHeight events current h = WaitReturned b False \<Longrightarrow> h \<le> b"
  by (induction events current h rule: waitForBlockHeight.induct) (auto split: if_splits)

lemma SubmitResult_node_attempt:
  assumes "(b, x) \<in> set (fst (SubmitResult_node chain events memberIndex result signatures
                               startBlockNumber))"
  shows "selectWaiterOrEvent
           (startBlockNumber
              + (ucast memberIndex - 1) * ResultPublicationBlockStep (GetConfig chain))
           events = WaiterFired b"
  using assms
  by (auto simp: SubmitResult_node_def setupEligibilityQueue_def Let_def
      split: if_splits sum.splits option.splits selectOutcome.splits)

lemma unat_eligibleBlockHeight:
  fixes memberIndex :: MemberIndex and startBlockNumber step :: uint64
  assumes "1 \<le> unat memberIndex"
    and "unat startBlockNumber + (unat memberIndex - 1) * unat step < 2 ^ 64"
  shows "unat (startBlockNumber + (ucast memberIndex - 1) * step)
         = unat startBlockNumber + (unat memberIndex - 1) * unat step"
proof -
  have "unat memberIndex < 2 ^ 8"
    using unsigned_less [of memberIndex, where ?'a = nat] by simp
  then have "unat memberIndex < 2 ^ 64"
    by (rule less_le_trans) simp
  then have u: "unat (ucast memberIndex :: uint64) = unat memberIndex"
    by (simp add: unsigned_ucast_eq take_bit_nat_eq_self)
  have "(1 :: uint64) \<le> ucast memberIndex"
    using assms(1) u by (simp add: word_le_nat_alt)
  then have m: "unat (ucast memberIndex - 1 :: uint64) = unat memberIndex - 1"
    by (simp add: unat_sub u)
  have "(unat memberIndex - 1) * unat step < 2 ^ 64"
    using assms(2) by simp
  then have p: "unat ((ucast memberIndex - 1) * step) = (unat memberIndex - 1) * unat step"
    using m by (simp add: unat_mult_lem [THEN iffD1])
  show ?thesis
    using assms(2) p by (simp add: unat_add_lem [THEN iffD1])
qed

lemma SubmitResult_attempt:
  assumes "(b, x) \<in> set (fst (SubmitResult groupParameters chain groupSelectionResult
                               waitForBlockFn step memberIndex result signatures))"
  shows "\<exists>blockCounter currentBlock.
           BlockCounter chain = Inr blockCounter \<and> CurrentBlock blockCounter = Inr currentBlock
           \<and> waitForBlockFn (currentBlock + ucast (memberIndex - 1) * step) = WaitReturned b False"
  using assms
  by (auto simp: SubmitResult_def Let_def
      split: if_splits sum.splits option.splits waitResult.splits)

text \<open>
  The signature gate of \<^verbatim>\<open>dkg_submit.go\<close>: with fewer than \<open>GroupQuorum\<close>
  signatures \<^const>\<open>SubmitResult\<close> returns an error and makes no submission attempt; an
  attempt is made only with at least \<open>GroupQuorum\<close> signatures.
\<close>

theorem SubmitResult_requires_group_quorum:
  "(int (card (dom signatures)) < GroupQuorum groupParameters \<longrightarrow>
      SubmitResult groupParameters chain groupSelectionResult waitForBlockFn step memberIndex
        result signatures
      = ([], Returned (Some (Err ''could not submit result with signatures for group quorum''))))
   \<and> (fst (SubmitResult groupParameters chain groupSelectionResult waitForBlockFn step
              memberIndex result signatures) \<noteq> [] \<longrightarrow>
        GroupQuorum groupParameters \<le> int (card (dom signatures)))"
  by (auto simp: SubmitResult_def)

lemma selectWaiterOrEvent_event_first:
  assumes "\<forall>e \<in> set before. case e of NewBlock b \<Rightarrow> b < h | ResultSubmitted ev \<Rightarrow> False
                                   | ContextDone \<Rightarrow> True"
  shows "selectWaiterOrEvent h (before @ ResultSubmitted event # after) = EventReceived event"
  using assms
proof (induction before)
  case Nil
  then show ?case by simp
next
  case (Cons e before)
  then show ?case by (cases e) (auto simp: not_le)
qed

lemma misbehavedSet_member:
  "(foldl (\<lambda>misbehaved misbehavedID. misbehaved(misbehavedID \<mapsto> ())) s misbehavedIDs m = Some ())
   = (m \<in> set misbehavedIDs \<or> s m = Some ())"
  by (induction misbehavedIDs arbitrary: s) auto

lemma misbehavedSet_empty:
  "(foldl (\<lambda>misbehaved misbehavedID. misbehaved(misbehavedID \<mapsto> ()))
      (Map.empty :: MemberIndex \<rightharpoonup> unit) misbehavedIDs m = None)
   = (m \<notin> set misbehavedIDs)"
proof -
  let ?s = "foldl (\<lambda>misbehaved misbehavedID. misbehaved(misbehavedID \<mapsto> ()))
      (Map.empty :: MemberIndex \<rightharpoonup> unit) misbehavedIDs"
  have "(?s m = None) = (?s m \<noteq> Some ())" by (cases "?s m") simp_all
  also have "\<dots> = (m \<notin> set misbehavedIDs)"
    by (simp only: misbehavedSet_member) simp
  finally show ?thesis .
qed

lemma operating_filter:
  "foldl (\<lambda>operating memberID. if P memberID then operating @ [memberID] else operating)
     acc memberIDs = acc @ filter P memberIDs"
  by (induction memberIDs arbitrary: acc) simp_all

lemma decideSigningGroupMemberFate_event:
  assumes "waitForDkgResultEvent chain PrePublicationBlocks dkgResultChannel
             publicationStartBlock = Returned (Inr event)"
    and "ResultGroupPublicKeyBytes result = Inr groupPublicKeyBytes"
  shows "decideSigningGroupMemberFate chain PrePublicationBlocks memberIndex dkgResultChannel
           publicationStartBlock result =
         (if groupPublicKeyBytes \<noteq> GroupPublicKeyBytes event
          then Returned (Inl (Err
                 ''could not stay in the group because the member do not support the same group public key''))
          else if memberIndex \<in> set (Misbehaved event)
          then Returned (Inl (Err
                 ''could not stay in the group because the member is considered as misbehaving''))
          else Returned (Inr (filter (\<lambda>memberID. memberID \<notin> set (Misbehaved event))
                                (MemberIDs result))))"
  using assms
  by (simp add: decideSigningGroupMemberFate_def Let_def misbehavedSet_empty operating_filter
      del: not_None_eq)

lemma fillSigningGroupOperators_result:
  assumes "\<forall>m \<in> set ids. unat (m - 1) < length selectedOperators"
    and "i + length ids \<le> length acc"
  shows "fillSigningGroupOperators selectedOperators ids i acc =
           Inr (take i acc @ map (\<lambda>m. selectedOperators ! unat (m - 1)) ids
                  @ drop (i + length ids) acc)"
  using assms
proof (induction ids arbitrary: i acc)
  case Nil
  then show ?case by simp
next
  case (Cons m ids)
  let ?acc = "acc[i := selectedOperators ! unat (m - 1)]"
  have i: "i < length acc" using Cons.prems(2) by simp
  have "fillSigningGroupOperators selectedOperators ids (Suc i) ?acc =
           Inr (take (Suc i) ?acc @ map (\<lambda>m. selectedOperators ! unat (m - 1)) ids
                  @ drop (Suc i + length ids) ?acc)"
    using Cons.prems by (intro Cons.IH) simp_all
  moreover have "take (Suc i) ?acc = take i acc @ [selectedOperators ! unat (m - 1)]"
    using i by (simp add: take_Suc_conv_app_nth)
  ultimately show ?case
    using Cons.prems(1) by simp
qed

lemma unat_pred_member:
  fixes m :: MemberIndex
  assumes "1 \<le> unat m"
  shows "unat (m - 1) = unat m - 1"
proof -
  have "(1 :: MemberIndex) \<le> m" using assms by (simp add: word_le_nat_alt)
  then show ?thesis by (simp add: unat_sub)
qed

lemma resolveFinalSigningGroupOperators_sorted:
  assumes "int (length selectedOperators) = GroupSize (GetConfig chain)"
    and "HonestThreshold (GetConfig chain) \<le> int (length operatingMembersIndexes)"
    and "\<forall>m \<in> set operatingMembersIndexes. 1 \<le> unat m \<and> unat m \<le> length selectedOperators"
  shows "resolveFinalSigningGroupOperators chain selectedOperators operatingMembersIndexes =
           Inr (map (\<lambda>m. selectedOperators ! (unat m - 1)) (sort operatingMembersIndexes))"
proof -
  let ?sorted = "sort operatingMembersIndexes"
  have in_range: "\<forall>m \<in> set ?sorted. unat (m - 1) < length selectedOperators"
    using assms(3) by (auto simp: unat_pred_member)
  have "fillSigningGroupOperators selectedOperators ?sorted 0
          (replicate (length operatingMembersIndexes) []) =
        Inr (map (\<lambda>m. selectedOperators ! unat (m - 1)) ?sorted)"
    using fillSigningGroupOperators_result [OF in_range, of 0
            "replicate (length operatingMembersIndexes) []"]
    by simp
  moreover have "map (\<lambda>m. selectedOperators ! unat (m - 1)) ?sorted
        = map (\<lambda>m. selectedOperators ! (unat m - 1)) ?sorted"
    using assms(3) by (intro map_cong) (auto simp: unat_pred_member)
  ultimately show ?thesis
    using assms(1,2) by (simp add: resolveFinalSigningGroupOperators_def Let_def)
qed

text \<open>
  Claim C5. After a failed publication, once a \<^verbatim>\<open>DKGResultSubmitted\<close> event is
  received, \<^const>\<open>decideSigningGroupMemberFate\<close> returns an error if the event's group
  public key differs from the one of the local result or the member is in the event's
  misbehaved list; otherwise it returns the member identifiers of the result's group
  without the misbehaved ones, in their order. For member indexes within the group,
  \<^const>\<open>resolveFinalSigningGroupOperators\<close> returns the selected operator at position
  \<open>i - 1\<close> for each index \<open>i\<close> of the ascending sorted list.
\<close>

theorem decideSigningGroupMemberFate_and_final_operators:
  assumes "waitForDkgResultEvent chain PrePublicationBlocks dkgResultChannel
             publicationStartBlock = Returned (Inr event)"
    and "ResultGroupPublicKeyBytes result = Inr groupPublicKeyBytes"
  shows "(groupPublicKeyBytes \<noteq> GroupPublicKeyBytes event \<or> memberIndex \<in> set (Misbehaved event)
            \<longrightarrow> (\<exists>e. decideSigningGroupMemberFate chain PrePublicationBlocks memberIndex
                        dkgResultChannel publicationStartBlock result = Returned (Inl e)))
       \<and> (groupPublicKeyBytes = GroupPublicKeyBytes event \<and> memberIndex \<notin> set (Misbehaved event)
            \<longrightarrow> decideSigningGroupMemberFate chain PrePublicationBlocks memberIndex
                   dkgResultChannel publicationStartBlock result
                 = Returned (Inr (filter (\<lambda>memberID. memberID \<notin> set (Misbehaved event))
                                    (MemberIDs result))))
       \<and> (\<forall>operatingMemberIndexes.
             int (length selectedOperators) = GroupSize (GetConfig chain)
             \<and> HonestThreshold (GetConfig chain) \<le> int (length operatingMemberIndexes)
             \<and> (\<forall>m \<in> set operatingMemberIndexes. 1 \<le> unat m \<and> unat m \<le> length selectedOperators)
             \<longrightarrow> resolveFinalSigningGroupOperators chain selectedOperators operatingMemberIndexes
                  = Inr (map (\<lambda>m. selectedOperators ! (unat m - 1))
                           (sort operatingMemberIndexes)))"
  using decideSigningGroupMemberFate_event [OF assms, of memberIndex]
    resolveFinalSigningGroupOperators_sorted [of selectedOperators chain]
  by auto


lemma card_sample_signatures: "card (dom sample_signatures) = 3"
  by (simp add: sample_signatures_def)

text \<open>
  Claim C6. With fewer than \<open>GroupQuorum\<close> signatures the submitter returns an error
  without a submission attempt. This holds of \<^const>\<open>SubmitResult\<close> of
  \<^verbatim>\<open>dkg_submit.go\<close>, but not of the node's own submitter \<^const>\<open>SubmitResult_node\<close>,
  which compares with \<open>HonestThreshold\<close>: with three signatures, an honest threshold of
  three and a group quorum of four, it makes a submission attempt at its eligible block,
  where the submitter of \<^verbatim>\<open>dkg_submit.go\<close> returns the quorum error.
\<close>

theorem SubmitResult_node_submits_below_group_quorum:
  "HonestThreshold (GetConfig sample_node_chain) = 3
   \<and> card (dom sample_signatures) = 3
   \<and> int (card (dom sample_signatures)) < GroupQuorum \<lparr>GroupQuorum = 4\<rparr>
   \<and> SubmitResult_node sample_node_chain [NewBlock 101, NewBlock 119, NewBlock 121] 3
       sample_result sample_signatures 100
     = ([(121, 3, sample_result, sample_signatures)], Returned None)
   \<and> SubmitResult \<lparr>GroupQuorum = 4\<rparr> sample_chain ()
       (waitForBlockHeight [NewBlock 101, NewBlock 119, NewBlock 121] 100) 3 3 sample_result
       sample_signatures
     = ([], Returned (Some (Err ''could not submit result with signatures for group quorum'')))"
  by (simp add: SubmitResult_node_def SubmitResult_def setupEligibilityQueue_def
      sample_node_chain_def sample_chain_def sample_config_def sample_block_counter_def
      sample_result_def card_sample_signatures)

theorem SubmitResult_requires_group_quorum_witness:
  "SubmitResult \<lparr>GroupQuorum = 4\<rparr> sample_chain () (waitForBlockHeight [NewBlock 130] 100) 3 3
     sample_result sample_signatures
     = ([], Returned (Some (Err ''could not submit result with signatures for group quorum'')))
   \<and> fst (SubmitResult \<lparr>GroupQuorum = 3\<rparr> sample_chain () (waitForBlockHeight [NewBlock 130] 100)
            3 3 sample_result sample_signatures) = [(130, [0x2A])]
   \<and> GroupQuorum \<lparr>GroupQuorum = 3\<rparr> \<le> int (card (dom sample_signatures))"
proof -
  have low: "int (card (dom sample_signatures)) < GroupQuorum \<lparr>GroupQuorum = 4\<rparr>"
    by (simp add: card_sample_signatures)
  have made: "fst (SubmitResult \<lparr>GroupQuorum = 3\<rparr> sample_chain ()
                     (waitForBlockHeight [NewBlock 130] 100) 3 3 sample_result sample_signatures)
              = [(130, [0x2A])]"
    by (simp add: SubmitResult_def sample_chain_def sample_config_def sample_block_counter_def
        sample_result_def card_sample_signatures)
  from SubmitResult_requires_group_quorum
         [of sample_signatures "\<lparr>GroupQuorum = 4\<rparr>" sample_chain "()"
             "waitForBlockHeight [NewBlock 130] 100" 3 3 sample_result]
       SubmitResult_requires_group_quorum
         [of sample_signatures "\<lparr>GroupQuorum = 3\<rparr>" sample_chain "()"
             "waitForBlockHeight [NewBlock 130] 100" 3 3 sample_result]
       low made
  show ?thesis by simp
qed

theorem decideSigningGroupMemberFate_and_final_operators_witness:
  "decideSigningGroupMemberFate sample_node_chain 5 3
     [NewBlock 101, ResultSubmitted sample_event] 100 sample_result
     = Returned (Inr [1, 3, 5])
   \<and> (\<exists>e. decideSigningGroupMemberFate sample_node_chain 5 2
          [NewBlock 101, ResultSubmitted sample_event] 100 sample_result
          = Returned (Inl e))
   \<and> resolveFinalSigningGroupOperators sample_node_chain
       [''op1'', ''op2'', ''op3'', ''op4'', ''op5''] [5, 1, 3]
     = Inr [''op1'', ''op3'', ''op5'']"
proof -
  let ?events = "[NewBlock 101, ResultSubmitted sample_event]"
  let ?ops = "[''op1'', ''op2'', ''op3'', ''op4'', ''op5'']"
  have w: "waitForDkgResultEvent sample_node_chain 5 ?events 100 = Returned (Inr sample_event)"
    by (simp add: waitForDkgResultEvent_def sample_node_chain_def sample_config_def
        sample_block_counter_def)
  have k: "ResultGroupPublicKeyBytes sample_result = Inr [0xAA]"
    by (simp add: sample_result_def)
  have srt: "sort [5, 1, 3 :: MemberIndex] = [1, 3, 5]"
    by code_simp
  have pre: "int (length ?ops) = GroupSize (GetConfig sample_node_chain)
             \<and> HonestThreshold (GetConfig sample_node_chain) \<le> int (length [5, 1, 3 :: MemberIndex])
             \<and> (\<forall>m \<in> set [5, 1, 3 :: MemberIndex]. 1 \<le> unat m \<and> unat m \<le> length ?ops)"
    by (simp add: sample_node_chain_def sample_config_def)
  from decideSigningGroupMemberFate_and_final_operators [OF w k, of 3 ?ops]
  have stay: "decideSigningGroupMemberFate sample_node_chain 5 3 ?events 100 sample_result
     = Returned (Inr [1, 3, 5])"
    by (simp add: sample_event_def sample_result_def)
  from decideSigningGroupMemberFate_and_final_operators [OF w k, of 2 ?ops]
  have leave: "\<exists>e. decideSigningGroupMemberFate sample_node_chain 5 2 ?events 100 sample_result
          = Returned (Inl e)"
    by (simp add: sample_event_def)
  have "resolveFinalSigningGroupOperators sample_node_chain ?ops [5, 1, 3]
        = Inr (map (\<lambda>m. ?ops ! (unat m - 1)) (sort [5, 1, 3 :: MemberIndex]))"
    using decideSigningGroupMemberFate_and_final_operators
               [OF w k, of 3 ?ops, THEN conjunct2, THEN conjunct2, THEN spec, of "[5, 1, 3]"] pre
    by (rule mp)
  then have ops: "resolveFinalSigningGroupOperators sample_node_chain ?ops [5, 1, 3]
        = Inr [''op1'', ''op3'', ''op5'']"
    by (simp only: srt) simp
  from stay leave ops show ?thesis by simp
qed

subsection \<open>Eligibility and lost races\<close>

lemma unat_delayed_block:
  fixes memberIndex :: MemberIndex and currentBlock step :: uint64
  assumes "1 \<le> unat memberIndex"
    and "unat currentBlock + (unat memberIndex - 1) * unat step < 2 ^ 64"
  shows "unat (currentBlock + ucast (memberIndex - 1) * step)
         = unat currentBlock + (unat memberIndex - 1) * unat step"
proof -
  have "(ucast (memberIndex - 1) :: uint64) = ucast memberIndex - 1"
  proof -
    have "unat (memberIndex - 1) = unat memberIndex - 1"
      using assms(1) by (rule unat_pred_member)
    moreover have "unat memberIndex < 2 ^ 8"
      using unsigned_less [of memberIndex, where ?'a = nat] by simp
    then have lt: "unat memberIndex < 2 ^ 64"
      by (rule less_le_trans) simp
    then have u: "unat (ucast memberIndex :: uint64) = unat memberIndex"
      by (simp add: unsigned_ucast_eq take_bit_nat_eq_self)
    have "unat (memberIndex - 1) < 2 ^ 64"
      using lt calculation by simp
    then have "unat (ucast (memberIndex - 1) :: uint64) = unat (memberIndex - 1)"
      by (simp add: unsigned_ucast_eq take_bit_nat_eq_self)
    moreover have "(1 :: uint64) \<le> ucast memberIndex"
      using assms(1) u by (simp add: word_le_nat_alt)
    then have "unat (ucast memberIndex - 1 :: uint64) = unat memberIndex - 1"
      by (simp add: unat_sub u)
    ultimately have "unat (ucast (memberIndex - 1) :: uint64) = unat (ucast memberIndex - 1 :: uint64)"
      by simp
    then show ?thesis by (rule word_unat_eq_iff [THEN iffD2])
  qed
  then show ?thesis
    using unat_eligibleBlockHeight [OF assms] by simp
qed

text \<open>
  Claim C1. For a member index \<open>i \<ge> 1\<close> no submission attempt is made before block
  \<open>publicationStartBlock + (i - 1) * step\<close>. The node's submitter
  \<^const>\<open>SubmitResult_node\<close> is given the publication start block and uses the chain's
  \<open>ResultPublicationBlockStep\<close>; the submitter \<^const>\<open>SubmitResult\<close> of
  \<^verbatim>\<open>dkg_submit.go\<close> is given no start block and counts from the current block it
  reads, with its own delay step, and waits by a function that returns, with the
  context alive, only once the height is reached. Every attempt is made at a block that
  is at least the bound as the code computes it on \<^verbatim>\<open>uint64\<close>, and at least the bound
  over the natural numbers whenever that is a \<^verbatim>\<open>uint64\<close> block number.
\<close>

theorem submission_not_before_eligible_block:
  "((b, x) \<in> set (fst (SubmitResult_node chain events memberIndex result signatures
                        startBlockNumber))
      \<and> 1 \<le> unat memberIndex \<longrightarrow>
      startBlockNumber
        + (ucast memberIndex - 1) * ResultPublicationBlockStep (GetConfig chain) \<le> b
      \<and> (unat startBlockNumber
            + (unat memberIndex - 1) * unat (ResultPublicationBlockStep (GetConfig chain)) < 2 ^ 64
          \<longrightarrow> unat startBlockNumber
                + (unat memberIndex - 1) * unat (ResultPublicationBlockStep (GetConfig chain))
              \<le> unat b))
   \<and> ((b', x') \<in> set (fst (SubmitResult groupParameters chain' groupSelectionResult
                          waitForBlockFn step memberIndex result' signatures))
      \<and> 1 \<le> unat memberIndex
      \<and> (\<forall>h reached. waitForBlockFn h = WaitReturned reached False \<longrightarrow> h \<le> reached)
      \<and> BlockCounter chain' = Inr blockCounter \<and> CurrentBlock blockCounter = Inr currentBlock
      \<longrightarrow>
      currentBlock + ucast (memberIndex - 1) * step \<le> b'
      \<and> (unat currentBlock + (unat memberIndex - 1) * unat step < 2 ^ 64
          \<longrightarrow> unat currentBlock + (unat memberIndex - 1) * unat step \<le> unat b'))"
proof (intro conjI impI)
  let ?step = "ResultPublicationBlockStep (GetConfig chain)"
  let ?h = "startBlockNumber + (ucast memberIndex - 1) * ?step"
  assume a: "(b, x) \<in> set (fst (SubmitResult_node chain events memberIndex result signatures
                        startBlockNumber)) \<and> 1 \<le> unat memberIndex"
  then have "(b, x) \<in> set (fst (SubmitResult_node chain events memberIndex result signatures
                        startBlockNumber))"
    by simp
  then have "selectWaiterOrEvent ?h events = WaiterFired b"
    by (rule SubmitResult_node_attempt)
  then show le: "?h \<le> b"
    by (rule selectWaiterOrEvent_fired)
  assume "unat startBlockNumber + (unat memberIndex - 1) * unat ?step < 2 ^ 64"
  with a have "unat ?h = unat startBlockNumber + (unat memberIndex - 1) * unat ?step"
    by (intro unat_eligibleBlockHeight) simp_all
  with le show "unat startBlockNumber + (unat memberIndex - 1) * unat ?step \<le> unat b"
    by (simp add: word_le_nat_alt)
next
  let ?h = "currentBlock + ucast (memberIndex - 1) * step"
  assume a: "(b', x') \<in> set (fst (SubmitResult groupParameters chain' groupSelectionResult
                          waitForBlockFn step memberIndex result' signatures))
      \<and> 1 \<le> unat memberIndex
      \<and> (\<forall>h reached. waitForBlockFn h = WaitReturned reached False \<longrightarrow> h \<le> reached)
      \<and> BlockCounter chain' = Inr blockCounter \<and> CurrentBlock blockCounter = Inr currentBlock"
  then have "(b', x') \<in> set (fst (SubmitResult groupParameters chain' groupSelectionResult
                          waitForBlockFn step memberIndex result' signatures))"
    by simp
  from SubmitResult_attempt [OF this] a
  have "waitForBlockFn ?h = WaitReturned b' False"
    by auto
  with a show le: "?h \<le> b'"
    by blast
  assume "unat currentBlock + (unat memberIndex - 1) * unat step < 2 ^ 64"
  with a have "unat ?h = unat currentBlock + (unat memberIndex - 1) * unat step"
    by (intro unat_delayed_block) simp_all
  with le show "unat currentBlock + (unat memberIndex - 1) * unat step \<le> unat b'"
    by (simp add: word_le_nat_alt)
qed



theorem submission_not_before_eligible_block_witness:
  "(121, 3, sample_result, sample_signatures)
     \<in> set (fst (SubmitResult_node sample_node_chain [NewBlock 101, NewBlock 119, NewBlock 121]
                    3 sample_result sample_signatures 100))
   \<and> (100 :: uint64) + (ucast (3 :: MemberIndex) - 1) * 10 \<le> 121
   \<and> (100 :: nat) + (3 - 1) * 10 \<le> 121
   \<and> (130, [0x2A])
       \<in> set (fst (SubmitResult \<lparr>GroupQuorum = 3\<rparr> sample_chain ()
                      (waitForBlockHeight [NewBlock 105, NewBlock 130] 100) 3 3 sample_result
                      sample_signatures))
   \<and> (100 :: nat) + (3 - 1) * 3 \<le> 130"
proof -
  have a: "(121, 3, sample_result, sample_signatures)
     \<in> set (fst (SubmitResult_node sample_node_chain [NewBlock 101, NewBlock 119, NewBlock 121]
                    3 sample_result sample_signatures 100))
     \<and> 1 \<le> unat (3 :: MemberIndex)"
    by (simp add: SubmitResult_node_def setupEligibilityQueue_def sample_node_chain_def
        sample_config_def sample_block_counter_def sample_result_def card_sample_signatures)
  have w: "\<forall>h reached. waitForBlockHeight [NewBlock 105, NewBlock 130] 100 h
              = WaitReturned reached False \<longrightarrow> h \<le> reached"
    using waitForBlockHeight_reached by blast
  have b: "(130, [0x2A])
       \<in> set (fst (SubmitResult \<lparr>GroupQuorum = 3\<rparr> sample_chain ()
                      (waitForBlockHeight [NewBlock 105, NewBlock 130] 100) 3 3 sample_result
                      sample_signatures))"
    by (simp add: SubmitResult_def sample_chain_def sample_config_def sample_block_counter_def
        sample_result_def card_sample_signatures)
  have c: "BlockCounter sample_chain = Inr sample_block_counter"
    "CurrentBlock sample_block_counter = Inr 100"
    by (simp_all add: sample_chain_def sample_block_counter_def)
  note T = submission_not_before_eligible_block
             [of 121 "(3, sample_result, sample_signatures)" sample_node_chain
                 "[NewBlock 101, NewBlock 119, NewBlock 121]" 3 sample_result sample_signatures
                 100 130 "[0x2A]" "\<lparr>GroupQuorum = 3\<rparr>" sample_chain "()"
                 "waitForBlockHeight [NewBlock 105, NewBlock 130] 100" 3 sample_result
                 sample_block_counter 100]
  from T [THEN conjunct1, THEN mp, OF a]
  have first: "(100 :: uint64) + (ucast (3 :: MemberIndex) - 1) * 10 \<le> 121
               \<and> (100 :: nat) + (3 - 1) * 10 \<le> 121"
    by (simp add: sample_node_chain_def sample_config_def)
  have hb: "(130, [0x2A])
       \<in> set (fst (SubmitResult \<lparr>GroupQuorum = 3\<rparr> sample_chain ()
                      (waitForBlockHeight [NewBlock 105, NewBlock 130] 100) 3 3 sample_result
                      sample_signatures))
      \<and> 1 \<le> unat (3 :: MemberIndex)
      \<and> (\<forall>h reached. waitForBlockHeight [NewBlock 105, NewBlock 130] 100 h
              = WaitReturned reached False \<longrightarrow> h \<le> reached)
      \<and> BlockCounter sample_chain = Inr sample_block_counter
      \<and> CurrentBlock sample_block_counter = Inr 100"
    by (intro conjI b w c) simp
  from T [THEN conjunct2, THEN mp, OF hb]
  have second: "(100 :: nat) + (3 - 1) * 3 \<le> 130"
    by simp
  from a b first second show ?thesis by blast
qed


lemma SubmitResult_node_requires_honest_threshold:
  "int (card (dom signatures)) < HonestThreshold (GetConfig chain) \<Longrightarrow>
   SubmitResult_node chain events memberIndex result signatures startBlockNumber
   = ([], Returned (Some (Err
        ''could not submit result with signatures for signature honest threshold'')))"
  by (simp add: SubmitResult_node_def)

text \<open>
  Claim C9. When \<^verbatim>\<open>GetDKGState\<close> returns a state other than \<open>AwaitingResult\<close>, both
  submitters return nil without a submission attempt. The node's submitter, waiting for
  its eligible block, returns nil without an attempt when it receives the submission
  event of another member before the waiter delivers. The submitter of
  \<^verbatim>\<open>dkg_submit.go\<close> observes no event itself: it returns nil without an attempt when
  its wait ends with the context cancelled by the caller.
\<close>

theorem lost_race_returns_nil:
  "(GroupQuorum groupParameters \<le> int (card (dom signatures))
      \<and> GetDKGState chain = Inr dkgState \<and> dkgState \<noteq> AwaitingResult \<longrightarrow>
      SubmitResult groupParameters chain groupSelectionResult waitForBlockFn step memberIndex
        result signatures = ([], Returned None))
   \<and> (GroupQuorum groupParameters \<le> int (card (dom signatures))
      \<and> GetDKGState chain = Inr AwaitingResult
      \<and> GroupPublicKey result = Inr groupPublicKey
      \<and> AssembleDKGResult chain memberIndex groupPublicKey (OperatingMemberIndexes result)
            (MisbehavedMembersIndexes result) signatures groupSelectionResult = Inr dkgResult
      \<and> IsDKGResultValid chain dkgResult = Inr True
      \<and> BlockCounter chain = Inr blockCounter \<and> CurrentBlock blockCounter = Inr currentBlock
      \<and> waitForBlockFn (currentBlock + ucast (memberIndex - 1) * step) = WaitReturned block True
      \<longrightarrow>
      SubmitResult groupParameters chain groupSelectionResult waitForBlockFn step memberIndex
        result signatures = ([], Returned None))
   \<and> (HonestThreshold (GetConfig nodeChain) \<le> int (card (dom signatures))
      \<and> GetDKGState nodeChain = Inr dkgState \<and> dkgState \<noteq> AwaitingResult \<longrightarrow>
      SubmitResult_node nodeChain events memberIndex result signatures startBlockNumber
        = ([], Returned None))
   \<and> (HonestThreshold (GetConfig nodeChain) \<le> int (card (dom signatures))
      \<and> GetDKGState nodeChain = Inr AwaitingResult
      \<and> setupEligibilityQueue nodeChain startBlockNumber memberIndex = Inr eligibleBlockHeight
      \<and> events = before @ ResultSubmitted event # after
      \<and> (\<forall>e \<in> set before. case e of NewBlock b \<Rightarrow> b < eligibleBlockHeight
                                   | ResultSubmitted ev \<Rightarrow> False | ContextDone \<Rightarrow> True) \<longrightarrow>
      SubmitResult_node nodeChain events memberIndex result signatures startBlockNumber
        = ([], Returned None))"
proof (intro conjI impI)
  assume "GroupQuorum groupParameters \<le> int (card (dom signatures))
      \<and> GetDKGState chain = Inr dkgState \<and> dkgState \<noteq> AwaitingResult"
  then show "SubmitResult groupParameters chain groupSelectionResult waitForBlockFn step
        memberIndex result signatures = ([], Returned None)"
    by (simp add: SubmitResult_def)
next
  assume "GroupQuorum groupParameters \<le> int (card (dom signatures))
      \<and> GetDKGState chain = Inr AwaitingResult
      \<and> GroupPublicKey result = Inr groupPublicKey
      \<and> AssembleDKGResult chain memberIndex groupPublicKey (OperatingMemberIndexes result)
            (MisbehavedMembersIndexes result) signatures groupSelectionResult = Inr dkgResult
      \<and> IsDKGResultValid chain dkgResult = Inr True
      \<and> BlockCounter chain = Inr blockCounter \<and> CurrentBlock blockCounter = Inr currentBlock
      \<and> waitForBlockFn (currentBlock + ucast (memberIndex - 1) * step) = WaitReturned block True"
  then show "SubmitResult groupParameters chain groupSelectionResult waitForBlockFn step
        memberIndex result signatures = ([], Returned None)"
    by (simp add: SubmitResult_def)
next
  assume "HonestThreshold (GetConfig nodeChain) \<le> int (card (dom signatures))
      \<and> GetDKGState nodeChain = Inr dkgState \<and> dkgState \<noteq> AwaitingResult"
  then show "SubmitResult_node nodeChain events memberIndex result signatures startBlockNumber
        = ([], Returned None)"
    by (simp add: SubmitResult_node_def)
next
  assume h: "HonestThreshold (GetConfig nodeChain) \<le> int (card (dom signatures))
      \<and> GetDKGState nodeChain = Inr AwaitingResult
      \<and> setupEligibilityQueue nodeChain startBlockNumber memberIndex = Inr eligibleBlockHeight
      \<and> events = before @ ResultSubmitted event # after
      \<and> (\<forall>e \<in> set before. case e of NewBlock b \<Rightarrow> b < eligibleBlockHeight
                                   | ResultSubmitted ev \<Rightarrow> False | ContextDone \<Rightarrow> True)"
  then have "selectWaiterOrEvent eligibleBlockHeight events = EventReceived event"
    using selectWaiterOrEvent_event_first [of before eligibleBlockHeight event after] by simp
  with h show "SubmitResult_node nodeChain events memberIndex result signatures startBlockNumber
        = ([], Returned None)"
    by (simp add: SubmitResult_node_def)
qed

theorem lost_race_returns_nil_witness:
  "SubmitResult \<lparr>GroupQuorum = 3\<rparr> (sample_chain\<lparr>GetDKGState := Inr Challenge\<rparr>) ()
     (waitForBlockHeight [NewBlock 130] 100) 3 3 sample_result sample_signatures
     = ([], Returned None)
   \<and> SubmitResult \<lparr>GroupQuorum = 3\<rparr> sample_chain ()
       (waitForBlockHeight [NewBlock 101, ContextDone, NewBlock 130] 100) 3 3 sample_result
       sample_signatures
     = ([], Returned None)
   \<and> SubmitResult_node (sample_node_chain\<lparr>GetDKGState := Inr Challenge\<rparr>)
       [NewBlock 101, NewBlock 121] 3 sample_result sample_signatures 100
     = ([], Returned None)
   \<and> SubmitResult_node sample_node_chain
       [NewBlock 101, ResultSubmitted sample_event, NewBlock 121] 3 sample_result
       sample_signatures 100
     = ([], Returned None)"
proof -
  let ?chain = "sample_chain\<lparr>GetDKGState := Inr Challenge\<rparr>"
  let ?node = "sample_node_chain\<lparr>GetDKGState := Inr Challenge\<rparr>"
  let ?wait = "waitForBlockHeight [NewBlock 130] 100"
  let ?cancelled = "waitForBlockHeight [NewBlock 101, ContextDone, NewBlock 130] 100"
  let ?seen = "[NewBlock 101, ResultSubmitted sample_event, NewBlock 121]"
  have q: "GroupQuorum \<lparr>GroupQuorum = 3\<rparr> \<le> int (card (dom sample_signatures))"
    by (simp add: card_sample_signatures)
  have t: "HonestThreshold (GetConfig ?node) \<le> int (card (dom sample_signatures))"
    and t': "HonestThreshold (GetConfig sample_node_chain) \<le> int (card (dom sample_signatures))"
    by (simp_all add: card_sample_signatures sample_node_chain_def sample_config_def)
  have s: "GetDKGState ?chain = Inr Challenge" and s': "GetDKGState ?node = Inr Challenge"
    and sn: "GetDKGState sample_node_chain = Inr AwaitingResult"
    and sc: "GetDKGState sample_chain = Inr AwaitingResult"
    by (simp_all add: sample_node_chain_def sample_chain_def)
  have ne: "Challenge \<noteq> AwaitingResult" by simp
  have r: "GroupPublicKey sample_result = Inr ()"
    and asm: "AssembleDKGResult sample_chain 3 () (OperatingMemberIndexes sample_result)
            (MisbehavedMembersIndexes sample_result) sample_signatures () = Inr [0x2A]"
    and v: "IsDKGResultValid sample_chain [0x2A] = Inr True"
    and bc: "BlockCounter sample_chain = Inr sample_block_counter"
    and cb: "CurrentBlock sample_block_counter = Inr 100"
    by (simp_all add: sample_result_def sample_chain_def sample_block_counter_def)
  have c: "?cancelled (100 + ucast ((3 :: MemberIndex) - 1) * 3) = WaitReturned 101 True"
    by simp
  have e: "setupEligibilityQueue sample_node_chain 100 3 = Inr 120"
    by (simp add: setupEligibilityQueue_def sample_node_chain_def sample_config_def
        sample_block_counter_def)
  have sp: "?seen = [NewBlock 101] @ ResultSubmitted sample_event # [NewBlock 121]"
    by simp
  have w: "\<forall>e \<in> set [NewBlock 101]. case e of NewBlock b \<Rightarrow> b < (120 :: uint64)
             | ResultSubmitted ev \<Rightarrow> False | ContextDone \<Rightarrow> True"
    by simp
  have first: "SubmitResult \<lparr>GroupQuorum = 3\<rparr> ?chain () ?wait 3 3 sample_result
                 sample_signatures = ([], Returned None)"
    by (rule lost_race_returns_nil [where dkgState = Challenge, THEN conjunct1, THEN mp])
       (intro conjI q s ne)
  have second: "SubmitResult \<lparr>GroupQuorum = 3\<rparr> sample_chain () ?cancelled 3 3 sample_result
                  sample_signatures = ([], Returned None)"
    by (rule lost_race_returns_nil
               [where groupPublicKey = "()" and dkgResult = "[0x2A]"
                  and blockCounter = sample_block_counter and currentBlock = 100
                  and block = 101,
                THEN conjunct2, THEN conjunct1, THEN mp])
       (intro conjI q sc r asm v bc cb c)
  have third: "SubmitResult_node ?node [NewBlock 101, NewBlock 121] 3 sample_result
                 sample_signatures 100 = ([], Returned None)"
    by (rule lost_race_returns_nil
               [where dkgState = Challenge, THEN conjunct2, THEN conjunct2, THEN conjunct1,
                THEN mp])
       (intro conjI t s' ne)
  have fourth: "SubmitResult_node sample_node_chain ?seen 3 sample_result sample_signatures 100
                = ([], Returned None)"
    by (rule lost_race_returns_nil
               [where eligibleBlockHeight = 120 and before = "[NewBlock 101]"
                  and event = sample_event and after = "[NewBlock 121]",
                THEN conjunct2, THEN conjunct2, THEN conjunct2, THEN mp])
       (intro conjI t' sn e sp w)
  from first second third fourth show ?thesis by blast
qed

section \<open>SPV maintainer: classification, batches and the look-back window\<close>








lemma proveLoop_completes:
  assumes "\<forall>t \<in> set transactions.
             proveTransaction chain Hash AssembleSpvProof parseTransactionInputs n t = (True, None)"
  shows "proveLoop chain Hash AssembleSpvProof parseTransactionInputs n transactions submitted
         = (submitted @ transactions, None)"
  using assms
  by (induction transactions arbitrary: submitted) simp_all




lemma unat_sub_40320:
  fixes currentBlock :: uint64
  shows "40320 \<le> unat currentBlock \<Longrightarrow> unat (currentBlock - 40320) = unat currentBlock - 40320"
    and "unat currentBlock < 40320 \<Longrightarrow>
         unat (currentBlock - 40320) = 2 ^ 64 - 40320 + unat currentBlock"
  by (simp_all add: unat_sub_if')

text \<open>
  Claim C10. \<^const>\<open>getUnprovenDepositSweepTransactions\<close> queries the past events from
  block \<open>currentBlock - 40320\<close>, computed on \<^verbatim>\<open>uint64\<close> without a guard: from
  40320 on this is the difference, below 40320 it wraps to
  \<open>2 ^ 64 - 40320 + currentBlock\<close> and is not 0. \<^const>\<open>retrieveCommittedTargetWallets\<close>
  of the moving funds task starts at 0 unless the current block exceeds its look-back of
  216000 blocks.
\<close>

theorem getUnprovenDepositSweepTransactions_start_block_wraps:
  assumes "SpvBlockCounter chain = Inr blockCounter"
    and "CurrentBlock blockCounter = Inr currentBlock"
    and "MovingFundsBlockCounter movingFundsChain = Inr blockCounter"
  shows "fst (getUnprovenDepositSweepTransactions chain btcChain)
           = [\<lparr>StartBlock = currentBlock - 40320\<rparr>]
       \<and> (40320 \<le> unat currentBlock \<longrightarrow>
            unat (currentBlock - 40320) = unat currentBlock - 40320)
       \<and> (unat currentBlock < 40320 \<longrightarrow>
            unat (currentBlock - 40320) = 2 ^ 64 - 40320 + unat currentBlock
            \<and> currentBlock - 40320 \<noteq> 0)
       \<and> map FilterStartBlock
            (fst (retrieveCommittedTargetWallets movingFundsChain sourceWalletPublicKeyHash
                    targetWalletsCommitmentHash))
           = [if 216000 < unat currentBlock then currentBlock - 216000 else 0]
       \<and> (unat currentBlock < 40320 \<longrightarrow>
            map FilterStartBlock
              (fst (retrieveCommittedTargetWallets movingFundsChain sourceWalletPublicKeyHash
                      targetWalletsCommitmentHash))
            = [0])"
proof -
  have spv: "fst (getUnprovenDepositSweepTransactions chain btcChain)
           = [\<lparr>StartBlock = currentBlock - 40320\<rparr>]"
    using assms(1,2) by (simp add: getUnprovenDepositSweepTransactions_def Let_def)
  have lt: "((216000 :: uint64) < currentBlock) = (216000 < unat currentBlock)"
    by (simp add: word_less_nat_alt)
  have mf: "map FilterStartBlock
            (fst (retrieveCommittedTargetWallets movingFundsChain sourceWalletPublicKeyHash
                    targetWalletsCommitmentHash))
           = [if 216000 < unat currentBlock then currentBlock - 216000 else 0]"
    using assms(2,3)
    by (simp add: retrieveCommittedTargetWallets_def Let_def lt
        MovingFundsCommitmentLookBackBlocks_def)
  have wrap: "unat (currentBlock - 40320) = 2 ^ 64 - 40320 + unat currentBlock
              \<and> currentBlock - 40320 \<noteq> 0"
    if "unat currentBlock < 40320"
  proof -
    have w: "unat (currentBlock - 40320) = 2 ^ 64 - 40320 + unat currentBlock"
      using that by (rule unat_sub_40320(2))
    then have "unat (currentBlock - 40320) \<noteq> 0" by simp
    then have "currentBlock - 40320 \<noteq> 0" by (metis unat_0)
    with w show ?thesis by simp
  qed
  show ?thesis
    using spv mf wrap unat_sub_40320(1) [of currentBlock] by auto
qed

theorem getUnprovenDepositSweepTransactions_start_block_wraps_witness:
  "fst (getUnprovenDepositSweepTransactions sample_spv_chain sample_btc_chain)
     = [\<lparr>StartBlock = 18446744073709511396\<rparr>]
   \<and> map FilterStartBlock
       (fst (retrieveCommittedTargetWallets sample_moving_funds_chain [0x77] [0x55])) = [0]
   \<and> fst (getUnprovenDepositSweepTransactions
            (sample_spv_chain\<lparr>SpvBlockCounter := Inr (sample_block_counter\<lparr>CurrentBlock := Inr 50000\<rparr>)\<rparr>)
            sample_btc_chain)
     = [\<lparr>StartBlock = 9680\<rparr>]"
proof -
  let ?late = "sample_block_counter\<lparr>CurrentBlock := Inr 50000\<rparr>"
  have c: "SpvBlockCounter sample_spv_chain = Inr sample_block_counter"
    "CurrentBlock sample_block_counter = Inr 100"
    "MovingFundsBlockCounter sample_moving_funds_chain = Inr sample_block_counter"
    by (simp_all add: sample_spv_chain_def sample_block_counter_def sample_moving_funds_chain_def)
  have l: "SpvBlockCounter (sample_spv_chain\<lparr>SpvBlockCounter := Inr ?late\<rparr>) = Inr ?late"
    "CurrentBlock ?late = Inr 50000"
    "MovingFundsBlockCounter (sample_moving_funds_chain\<lparr>MovingFundsBlockCounter := Inr ?late\<rparr>)
       = Inr ?late"
    by simp_all
  have small: "unat (100 :: uint64) < 40320" and large: "40320 \<le> unat (50000 :: uint64)"
    by simp_all
  from getUnprovenDepositSweepTransactions_start_block_wraps
         [OF c, of sample_btc_chain "[0x77]" "[0x55]"] small
  have first: "fst (getUnprovenDepositSweepTransactions sample_spv_chain sample_btc_chain)
     = [\<lparr>StartBlock = 18446744073709511396\<rparr>]"
    and second: "map FilterStartBlock
       (fst (retrieveCommittedTargetWallets sample_moving_funds_chain [0x77] [0x55])) = [0]"
    by simp_all
  from getUnprovenDepositSweepTransactions_start_block_wraps
         [OF l, of sample_btc_chain "[0x77]" "[0x55]"] large
  have third: "fst (getUnprovenDepositSweepTransactions
            (sample_spv_chain\<lparr>SpvBlockCounter := Inr ?late\<rparr>) sample_btc_chain)
     = [\<lparr>StartBlock = 9680\<rparr>]"
    by simp
  from first second third show ?thesis by simp
qed

end
